theory Spec2Isabelle
  imports Complex_Main "HOL-Library.Word" "HOL-Library.AList"
begin

unbundle bit_operations_syntax

section \<open>Outcomes of a call\<close>

text \<open>
  The renderer is C++: an index past the end of a \<open>std::vector\<close>, a null pointer handed to
  \<open>std::string\<close>, a failing \<open>assert\<close> and a loop that never leaves are not values of the
  function's return type. Each is a \<open>fault\<close> of the model, so that a function either
  \<open>Returns\<close> a value of its C++ return type or \<open>Fails\<close>.
\<close>

datatype fault = OutOfBoundsRead | NullPointerRead | AssertionFailure | NonTermination

datatype 'a outcome = Returns 'a | Fails fault

definition obind :: "'a outcome \<Rightarrow> ('a \<Rightarrow> 'b outcome) \<Rightarrow> 'b outcome" where
  "obind m f = (case m of Returns x \<Rightarrow> f x | Fails e \<Rightarrow> Fails e)"

section \<open>Big-endian readers (text\_renderer\_freetype.cpp, lines 85--113)\<close>

text \<open>
  \<open>size_t\<close> is taken to be 64 bits wide. Every offset the parser forms is a sum of a few
  16-bit values, small multiples of them, one 32-bit value and small constants, far below
  \<open>2 ^ 64\<close>, so
  \<open>size_t\<close> arithmetic is modelled on \<open>nat\<close>. The readers themselves check nothing:
  \<open>data[offset]\<close> past the end of the vector is the fault \<open>OutOfBoundsRead\<close>.
\<close>

type_synonym byte = "8 word"
type_synonym FT_Tag = "32 word"

definition FT_MAKE_TAG :: "byte \<Rightarrow> byte \<Rightarrow> byte \<Rightarrow> byte \<Rightarrow> FT_Tag" where
  "FT_MAKE_TAG x1 x2 x3 x4 =
     push_bit 24 (ucast x1) OR push_bit 16 (ucast x2) OR push_bit 8 (ucast x3) OR ucast x4"

definition kOpenTypeFeatureHalfWidth :: FT_Tag where
  "kOpenTypeFeatureHalfWidth = FT_MAKE_TAG 0x68 0x77 0x69 0x64"

definition kOpenTypeScriptHiraganaKatakana :: FT_Tag where
  "kOpenTypeScriptHiraganaKatakana = FT_MAKE_TAG 0x6B 0x61 0x6E 0x61"

definition kOpenTypeLangSysJapanese :: FT_Tag where
  "kOpenTypeLangSysJapanese = FT_MAKE_TAG 0x4A 0x41 0x4E 0x20"

definition GetUint16 :: "byte list \<Rightarrow> nat \<Rightarrow> 16 word outcome" where
  "GetUint16 data offset =
     (if offset + 1 < length data
      then Returns (push_bit 8 (ucast (data ! offset)) OR ucast (data ! (offset + 1)))
      else Fails OutOfBoundsRead)"

definition GetUint32 :: "byte list \<Rightarrow> nat \<Rightarrow> 32 word outcome" where
  "GetUint32 data offset =
     (if offset + 3 < length data
      then Returns (push_bit 24 (ucast (data ! offset)) OR push_bit 16 (ucast (data ! (offset + 1)))
                    OR push_bit 8 (ucast (data ! (offset + 2))) OR ucast (data ! (offset + 3)))
      else Fails OutOfBoundsRead)"

definition GetOffset16 :: "byte list \<Rightarrow> nat \<Rightarrow> nat outcome" where
  "GetOffset16 data offset = obind (GetUint16 data offset) (\<lambda>v. Returns (unat v))"

definition GetOffset32 :: "byte list \<Rightarrow> nat \<Rightarrow> nat outcome" where
  "GetOffset32 data offset = obind (GetUint32 data offset) (\<lambda>v. Returns (unat v))"

definition GetInt16 :: "byte list \<Rightarrow> nat \<Rightarrow> int outcome" where
  "GetInt16 data offset = obind (GetUint16 data offset) (\<lambda>v. Returns (sint v))"

definition GetTag :: "byte list \<Rightarrow> nat \<Rightarrow> FT_Tag outcome" where
  "GetTag data offset =
     (if offset + 3 < length data
      then Returns (FT_MAKE_TAG (data ! offset) (data ! (offset + 1))
                                (data ! (offset + 2)) (data ! (offset + 3)))
      else Fails OutOfBoundsRead)"

section \<open>ReadCoverageTable (lines 115--176)\<close>

text \<open>
  The function returns \<open>std::optional<std::vector<uint16_t>>\<close>: \<open>None\<close> is
  \<open>std::nullopt\<close>.

  Format 1, the loop of lines 131--137.
\<close>

function ReadCoverageTable_glyph_loop ::
  "byte list \<Rightarrow> nat \<Rightarrow> nat \<Rightarrow> nat \<Rightarrow> 16 word list \<Rightarrow> 16 word list option outcome" where
  "ReadCoverageTable_glyph_loop gsub glyph_array_offset glyph_count coverage_index coverage =
     (if coverage_index < glyph_count then
        if length gsub < glyph_array_offset + coverage_index * 2 + 2 then Returns None
        else obind (GetUint16 gsub (glyph_array_offset + coverage_index * 2)) (\<lambda>glyph_id.
               ReadCoverageTable_glyph_loop gsub glyph_array_offset glyph_count
                 (coverage_index + 1) (coverage @ [glyph_id]))
      else Returns (Some coverage))"
  by pat_completeness auto
termination
  by (relation "measure (\<lambda>(gsub, off, glyph_count, coverage_index, coverage).
                           glyph_count - coverage_index)") auto

text \<open>
  Format 2, the inner loop of lines 169--171:
  \<^verbatim>\<open>for (uint16_t glyph_id = start_glyph_id; glyph_id <= end_glyph_id; glyph_id++)\<close>.
  The counter is a \<open>uint16_t\<close>, so \<open>glyph_id++\<close> wraps from \<open>0xFFFF\<close> to \<open>0\<close>; the loop
  may not leave, and then the result is \<open>None\<close>.
\<close>

partial_function (option) ReadCoverageTable_expand_range ::
  "16 word \<Rightarrow> 16 word \<Rightarrow> 16 word list \<Rightarrow> 16 word list option" where
  [code]: "ReadCoverageTable_expand_range glyph_id end_glyph_id coverage =
     (if glyph_id \<le> end_glyph_id
      then ReadCoverageTable_expand_range (glyph_id + 1) end_glyph_id (coverage @ [glyph_id])
      else Some coverage)"

text \<open>
  Format 2, the loop of lines 156--172. \<open>coverage_index\<close> is a \<open>uint32_t\<close>;
  \<open>end_glyph_id - start_glyph_id\<close> is computed on \<open>int\<close> after promotion.
\<close>

function ReadCoverageTable_range_loop ::
  "byte list \<Rightarrow> nat \<Rightarrow> nat \<Rightarrow> nat \<Rightarrow> 32 word \<Rightarrow> 16 word list \<Rightarrow> 16 word list option outcome" where
  "ReadCoverageTable_range_loop gsub range_records_offset range_count range_index coverage_index coverage =
     (if range_index < range_count then
        if length gsub < range_records_offset + range_index * 6 + 6 then Returns None
        else
          obind (GetUint16 gsub (range_records_offset + range_index * 6)) (\<lambda>start_glyph_id.
          obind (GetUint16 gsub (range_records_offset + range_index * 6 + 2)) (\<lambda>end_glyph_id.
          obind (GetUint16 gsub (range_records_offset + range_index * 6 + 4)) (\<lambda>start_coverage_index.
            if start_glyph_id > end_glyph_id \<or> ucast start_coverage_index \<noteq> coverage_index
            then Returns None
            else
              (case ReadCoverageTable_expand_range start_glyph_id end_glyph_id coverage of
                 None \<Rightarrow> Fails NonTermination
               | Some coverage' \<Rightarrow>
                   ReadCoverageTable_range_loop gsub range_records_offset range_count (range_index + 1)
                     (coverage_index + word_of_int (uint end_glyph_id - uint start_glyph_id) + 1)
                     coverage'))))
      else Returns (Some coverage))"
  by pat_completeness auto
termination
  by (relation "measure (\<lambda>(gsub, off, range_count, range_index, coverage_index, coverage).
                           range_count - range_index)") auto

definition ReadCoverageTable :: "byte list \<Rightarrow> nat \<Rightarrow> 16 word list option outcome" where
  "ReadCoverageTable gsub offset =
     (if length gsub < offset + 2 then Returns None
      else
        obind (GetUint16 gsub offset) (\<lambda>coverage_format.
          if coverage_format = 1 then
            if length gsub < offset + 4 then Returns None
            else obind (GetUint16 gsub (offset + 2)) (\<lambda>glyph_count.
                   ReadCoverageTable_glyph_loop gsub (offset + 4) (unat glyph_count) 0 [])
          else if coverage_format = 2 then
            if length gsub < offset + 4 then Returns None
            else obind (GetUint16 gsub (offset + 2)) (\<lambda>range_count.
                   ReadCoverageTable_range_loop gsub (offset + 4) (unat range_count) 0 0 [])
          else Returns None))"

section \<open>ReadScriptFeatureIndices (lines 178--262)\<close>

text \<open>
  The loop over the LangSys records, lines 228--239. \<open>None\<close> is the \<open>return {}\<close> of line
  232; \<open>Some\<close> carries \<open>lang_sys_offset\<close> as the loop leaves it.
\<close>

function ReadScriptFeatureIndices_lang_sys_loop ::
  "byte list \<Rightarrow> FT_Tag \<Rightarrow> nat \<Rightarrow> nat \<Rightarrow> nat \<Rightarrow> nat \<Rightarrow> nat \<Rightarrow> nat option outcome" where
  "ReadScriptFeatureIndices_lang_sys_loop gsub required_lang_sys_tag script_offset
       lang_sys_records_offset lang_sys_count lang_sys_index lang_sys_offset =
     (if lang_sys_index < lang_sys_count then
        if length gsub < lang_sys_records_offset + lang_sys_index * 6 + 6 then Returns None
        else
          obind (GetTag gsub (lang_sys_records_offset + lang_sys_index * 6)) (\<lambda>lang_sys_tag.
            if lang_sys_tag = required_lang_sys_tag
            then obind (GetUint16 gsub (lang_sys_records_offset + lang_sys_index * 6 + 4))
                   (\<lambda>v. Returns (Some (script_offset + unat v)))
            else ReadScriptFeatureIndices_lang_sys_loop gsub required_lang_sys_tag script_offset
                   lang_sys_records_offset lang_sys_count (lang_sys_index + 1) lang_sys_offset)
      else Returns (Some lang_sys_offset))"
  by pat_completeness auto
termination
  by (relation "measure (\<lambda>(gsub, tag, script_offset, off, lang_sys_count, lang_sys_index, lang_sys_offset).
                           lang_sys_count - lang_sys_index)") auto

text \<open>The loop over the feature indices, lines 252--258; \<open>None\<close> is the \<open>return {}\<close>.\<close>

function ReadScriptFeatureIndices_feature_loop ::
  "byte list \<Rightarrow> nat \<Rightarrow> nat \<Rightarrow> nat \<Rightarrow> 16 word list \<Rightarrow> 16 word list option outcome" where
  "ReadScriptFeatureIndices_feature_loop gsub feature_indices_offset feature_index_count i feature_indices =
     (if i < feature_index_count then
        if length gsub < feature_indices_offset + i * 2 + 2 then Returns None
        else obind (GetUint16 gsub (feature_indices_offset + i * 2)) (\<lambda>feature_index.
               ReadScriptFeatureIndices_feature_loop gsub feature_indices_offset feature_index_count
                 (i + 1) (feature_indices @ [feature_index]))
      else Returns (Some feature_indices))"
  by pat_completeness auto
termination
  by (relation "measure (\<lambda>(gsub, off, feature_index_count, i, feature_indices).
                           feature_index_count - i)") auto

text \<open>
  The loop over the script records, lines 210--260. \<open>feature_indices\<close> is empty until the
  matching script is reached, and the loop is left (\<open>break\<close>) right after it has been filled.
\<close>

function ReadScriptFeatureIndices_script_loop ::
  "byte list \<Rightarrow> nat \<Rightarrow> FT_Tag \<Rightarrow> FT_Tag \<Rightarrow> nat \<Rightarrow> nat \<Rightarrow> 16 word list outcome" where
  "ReadScriptFeatureIndices_script_loop gsub script_list_offset required_script_tag
       required_lang_sys_tag script_count script_index =
     (if script_index < script_count then
        if length gsub < script_list_offset + 2 + script_index * 6 + 6 then Returns []
        else
          obind (GetTag gsub (script_list_offset + 2 + script_index * 6)) (\<lambda>script_tag.
            if script_tag \<noteq> required_script_tag
            then ReadScriptFeatureIndices_script_loop gsub script_list_offset required_script_tag
                   required_lang_sys_tag script_count (script_index + 1)
            else
              obind (GetOffset16 gsub (script_list_offset + 2 + script_index * 6 + 4)) (\<lambda>v.
              let script_offset = script_list_offset + v in
              if length gsub < script_offset + 4 then Returns []
              else
                obind (GetOffset16 gsub script_offset) (\<lambda>d.
                let default_lang_sys_offset = script_offset + d in
                obind (GetUint16 gsub (script_offset + 2)) (\<lambda>lang_sys_count.
                obind (ReadScriptFeatureIndices_lang_sys_loop gsub required_lang_sys_tag script_offset
                         (script_offset + 4) (unat lang_sys_count) 0 default_lang_sys_offset) (\<lambda>r.
                  case r of
                    None \<Rightarrow> Returns []
                  | Some lang_sys_offset \<Rightarrow>
                      if lang_sys_offset = script_offset
                      then ReadScriptFeatureIndices_script_loop gsub script_list_offset
                             required_script_tag required_lang_sys_tag script_count (script_index + 1)
                      else if length gsub < lang_sys_offset + 6 then Returns []
                      else
                        obind (GetUint16 gsub (lang_sys_offset + 2)) (\<lambda>required_feature_index.
                        obind (GetUint16 gsub (lang_sys_offset + 4)) (\<lambda>feature_index_count.
                        obind (ReadScriptFeatureIndices_feature_loop gsub (lang_sys_offset + 6)
                                 (unat feature_index_count) 0
                                 (if required_feature_index \<noteq> 0xffff
                                  then [required_feature_index] else [])) (\<lambda>r.
                          Returns (case r of None \<Rightarrow> [] | Some feature_indices \<Rightarrow> feature_indices)))))))))
      else Returns [])"
  by pat_completeness auto
termination
  by (relation "measure (\<lambda>(gsub, off, script_tag, lang_sys_tag, script_count, script_index).
                           script_count - script_index)") auto

definition ReadScriptFeatureIndices ::
  "byte list \<Rightarrow> nat \<Rightarrow> FT_Tag \<Rightarrow> FT_Tag \<Rightarrow> 16 word list outcome" where
  "ReadScriptFeatureIndices gsub script_list_offset required_script_tag required_lang_sys_tag =
     (if length gsub < script_list_offset + 2 then Returns []
      else obind (GetUint16 gsub script_list_offset) (\<lambda>script_count.
             ReadScriptFeatureIndices_script_loop gsub script_list_offset required_script_tag
               required_lang_sys_tag (unat script_count) 0))"

section \<open>LoadGSUBTable (lines 264--440)\<close>

text \<open>
  The result is a \<open>std::unordered_map<FT_UInt, FT_UInt>\<close>. The code only stores into it with
  \<open>operator[]\<close> and looks keys up with \<open>find\<close>, so it is modelled as an association list
  with at most one entry for each key; \<open>{}\<close> is \<open>[]\<close>.

  Inside the loops \<open>None\<close> stands for one of the \<open>return {}\<close> statements, which leave the
  whole function with an empty map, and \<open>Some\<close> carries the map built so far.
\<close>

type_synonym subst_map = "(nat \<times> nat) list"

text \<open>
  \<open>gsub_size\<close> is an \<open>FT_ULong\<close> (\<open>unsigned long\<close>, 64 bits): the subtraction in
  \<open>gsub_size - 2 < 8\<close> (line 283) wraps around.
\<close>

definition FT_ULong_minus :: "nat \<Rightarrow> nat \<Rightarrow> nat" where
  "FT_ULong_minus a b = (a + 2 ^ 64 - b) mod 2 ^ 64"

text \<open>Single Substitution Format 2, the loop of lines 421--432.\<close>

function LoadGSUBTable_substitute_loop ::
  "byte list \<Rightarrow> nat \<Rightarrow> nat \<Rightarrow> nat \<Rightarrow> 16 word list \<Rightarrow> subst_map \<Rightarrow> subst_map option outcome" where
  "LoadGSUBTable_substitute_loop gsub substitute_glyph_ids_offset glyph_count coverage_index coverage
       half_width_subst_map =
     (if coverage_index < glyph_count then
        if length gsub < substitute_glyph_ids_offset + coverage_index * 2 + 2 then Returns None
        else
          obind (GetUint16 gsub (substitute_glyph_ids_offset + coverage_index * 2))
            (\<lambda>substitute_glyph_id.
              if length coverage \<le> coverage_index then Returns None
              else LoadGSUBTable_substitute_loop gsub substitute_glyph_ids_offset glyph_count
                     (coverage_index + 1) coverage
                     (AList.update (unat (coverage ! coverage_index)) (unat substitute_glyph_id)
                        half_width_subst_map))
      else Returns (Some half_width_subst_map))"
  by pat_completeness auto
termination
  by (relation "measure (\<lambda>(gsub, off, glyph_count, coverage_index, coverage, m).
                           glyph_count - coverage_index)") auto

text \<open>
  The body of \<open>if (lookup_type == 1)\<close>, lines 387--434. In format 1 the sum
  \<open>glyph_id + delta_glyph_id\<close> is formed on \<open>int\<close> and cast back to \<open>uint16_t\<close>. In
  format 2 \<open>glyph_count\<close> is read (line 416) before the length is compared (line 417).
\<close>

definition LoadGSUBTable_single_substitution ::
  "byte list \<Rightarrow> 16 word \<Rightarrow> nat \<Rightarrow> 16 word \<Rightarrow> subst_map \<Rightarrow> subst_map option outcome" where
  "LoadGSUBTable_single_substitution gsub lookup_type subtable_offset subst_format half_width_subst_map =
     (if lookup_type = 1 then
        if length gsub < subtable_offset + 4 then Returns None
        else
          obind (GetOffset16 gsub (subtable_offset + 2)) (\<lambda>v.
          let coverage_offset = subtable_offset + v in
          obind (ReadCoverageTable gsub coverage_offset) (\<lambda>coverage.
            case coverage of
              None \<Rightarrow> Returns None
            | Some coverage \<Rightarrow>
                if subst_format = 1 then
                  if length gsub < subtable_offset + 6 then Returns None
                  else
                    obind (GetInt16 gsub (subtable_offset + 4)) (\<lambda>delta_glyph_id.
                      Returns (Some (foldl (\<lambda>m glyph_id.
                                 AList.update (unat glyph_id)
                                   (unat (word_of_int (uint glyph_id + delta_glyph_id) :: 16 word)) m)
                               half_width_subst_map coverage)))
                else if subst_format = 2 then
                  obind (GetUint16 gsub (subtable_offset + 4)) (\<lambda>glyph_count.
                    if length gsub < subtable_offset + 6 then Returns None
                    else LoadGSUBTable_substitute_loop gsub (subtable_offset + 6) (unat glyph_count) 0
                           coverage half_width_subst_map)
                else Returns (Some half_width_subst_map)))
      else Returns (Some half_width_subst_map))"

text \<open>
  The loop over the subtables of one lookup, lines 357--435. \<open>is_extension\<close> is fixed
  before the loop; \<open>lookup_type\<close> is overwritten by an extension subtable (line 380) and
  keeps that value for the subtables after it.
\<close>

function LoadGSUBTable_subtable_loop ::
  "byte list \<Rightarrow> nat \<Rightarrow> bool \<Rightarrow> nat \<Rightarrow> nat \<Rightarrow> 16 word \<Rightarrow> subst_map \<Rightarrow> subst_map option outcome" where
  "LoadGSUBTable_subtable_loop gsub lookup_offset is_extension subtable_count subtable_index
       lookup_type half_width_subst_map =
     (if subtable_index < subtable_count then
        if length gsub < lookup_offset + 6 + subtable_index * 2 + 2 then Returns None
        else
          obind (GetOffset16 gsub (lookup_offset + 6 + subtable_index * 2)) (\<lambda>v.
          if length gsub < lookup_offset + v + 2 then Returns None
          else
            obind (GetUint16 gsub (lookup_offset + v)) (\<lambda>subst_format.
              if is_extension then
                if subst_format \<noteq> 1
                then LoadGSUBTable_subtable_loop gsub lookup_offset is_extension subtable_count
                       (subtable_index + 1) lookup_type half_width_subst_map
                else if length gsub < lookup_offset + v + 8 then Returns None
                else
                  obind (GetUint16 gsub (lookup_offset + v + 2)) (\<lambda>extension_lookup_type.
                  obind (GetOffset32 gsub (lookup_offset + v + 4)) (\<lambda>extension_offset.
                    if length gsub < lookup_offset + v + extension_offset + 2 then Returns None
                    else
                      obind (GetUint16 gsub (lookup_offset + v + extension_offset)) (\<lambda>subst_format'.
                      obind (LoadGSUBTable_single_substitution gsub extension_lookup_type
                               (lookup_offset + v + extension_offset) subst_format'
                               half_width_subst_map) (\<lambda>r.
                        case r of
                          None \<Rightarrow> Returns None
                        | Some m \<Rightarrow>
                            LoadGSUBTable_subtable_loop gsub lookup_offset is_extension subtable_count
                              (subtable_index + 1) extension_lookup_type m))))
              else
                obind (LoadGSUBTable_single_substitution gsub lookup_type (lookup_offset + v)
                         subst_format half_width_subst_map) (\<lambda>r.
                  case r of
                    None \<Rightarrow> Returns None
                  | Some m \<Rightarrow>
                      LoadGSUBTable_subtable_loop gsub lookup_offset is_extension subtable_count
                        (subtable_index + 1) lookup_type m)))
      else Returns (Some half_width_subst_map))"
  by pat_completeness auto
termination
  by (relation "measure (\<lambda>(gsub, lookup_offset, is_extension, subtable_count, subtable_index,
                           lookup_type, m). subtable_count - subtable_index)") auto

text \<open>
  The loop over the lookup list indices of the feature, lines 333--436. The index is
  compared with \<open>feature_count\<close> (line 338), as the source has it.
\<close>

function LoadGSUBTable_lookup_loop ::
  "byte list \<Rightarrow> nat \<Rightarrow> 16 word \<Rightarrow> nat \<Rightarrow> nat \<Rightarrow> nat \<Rightarrow> subst_map \<Rightarrow> subst_map option outcome" where
  "LoadGSUBTable_lookup_loop gsub lookup_list_offset feature_count lookup_list_indices_offset
       lookup_index_count lookup_index half_width_subst_map =
     (if lookup_index < lookup_index_count then
        if length gsub < lookup_list_indices_offset + lookup_index * 2 + 2 then Returns None
        else
          obind (GetUint16 gsub (lookup_list_indices_offset + lookup_index * 2)) (\<lambda>v.
          let lookup_list_index = unat v in
          if lookup_list_index \<ge> unat feature_count
             \<or> length gsub < lookup_list_offset + 2 + lookup_list_index * 2 + 2
          then Returns None
          else
            obind (GetOffset16 gsub (lookup_list_offset + 2 + lookup_list_index * 2)) (\<lambda>w.
            let lookup_offset = lookup_list_offset + w in
            if length gsub < lookup_offset + 6 then Returns None
            else
              obind (GetUint16 gsub lookup_offset) (\<lambda>lookup_type.
              obind (GetUint16 gsub (lookup_offset + 2)) (\<lambda>lookup_flag.
              obind (GetUint16 gsub (lookup_offset + 4)) (\<lambda>subtable_count.
              obind (LoadGSUBTable_subtable_loop gsub lookup_offset (lookup_type = 7)
                       (unat subtable_count) 0 lookup_type half_width_subst_map) (\<lambda>r.
                case r of
                  None \<Rightarrow> Returns None
                | Some m \<Rightarrow>
                    LoadGSUBTable_lookup_loop gsub lookup_list_offset feature_count
                      lookup_list_indices_offset lookup_index_count (lookup_index + 1) m))))))
      else Returns (Some half_width_subst_map))"
  by pat_completeness auto
termination
  by (relation "measure (\<lambda>(gsub, lookup_list_offset, feature_count, off, lookup_index_count,
                           lookup_index, m). lookup_index_count - lookup_index)") auto

text \<open>
  The loop over \<open>feature_indices\<close>, lines 308--438: a record with another tag is skipped
  (\<open>continue\<close>), and the loop is left (\<open>break\<close>) after the first record with the required
  tag.
\<close>

fun LoadGSUBTable_feature_loop ::
  "byte list \<Rightarrow> FT_Tag \<Rightarrow> nat \<Rightarrow> nat \<Rightarrow> 16 word \<Rightarrow> 16 word list \<Rightarrow> subst_map
     \<Rightarrow> subst_map option outcome" where
  "LoadGSUBTable_feature_loop gsub required_feature_tag feature_list_offset lookup_list_offset
       feature_count [] half_width_subst_map = Returns (Some half_width_subst_map)"
| "LoadGSUBTable_feature_loop gsub required_feature_tag feature_list_offset lookup_list_offset
       feature_count (feature_index # feature_indices) half_width_subst_map =
     (let feature_record_offset = feature_list_offset + 2 + unat feature_index * 6 in
      if feature_index \<ge> feature_count \<or> length gsub < feature_record_offset + 6
      then Returns None
      else
        obind (GetTag gsub feature_record_offset) (\<lambda>feature_tag.
          if feature_tag \<noteq> required_feature_tag
          then LoadGSUBTable_feature_loop gsub required_feature_tag feature_list_offset
                 lookup_list_offset feature_count feature_indices half_width_subst_map
          else
            obind (GetOffset16 gsub (feature_record_offset + 4)) (\<lambda>v.
            let feature_offset = feature_list_offset + v in
            if length gsub < feature_offset + 4 then Returns None
            else
              obind (GetOffset16 gsub feature_offset) (\<lambda>feature_params_offset.
                if feature_params_offset \<noteq> 0 then Returns None
                else
                  obind (GetUint16 gsub (feature_offset + 2)) (\<lambda>lookup_index_count.
                    LoadGSUBTable_lookup_loop gsub lookup_list_offset feature_count
                      (feature_offset + 4) (unat lookup_index_count) 0 half_width_subst_map)))))"

text \<open>
  \<open>table\<close> is what \<open>FT_Load_Sfnt_Table\<close> gives for the tag \<open>GSUB\<close>: \<open>None\<close> when either
  call returns an error (the face has no such table), otherwise the bytes of the table, and
  \<open>gsub_size\<close> is their number. \<open>lookup_count\<close> is read (line 301) before
  \<open>lookup_list_offset\<close> is compared with the size (line 303).
\<close>

definition LoadGSUBTable ::
  "byte list option \<Rightarrow> FT_Tag \<Rightarrow> FT_Tag \<Rightarrow> FT_Tag \<Rightarrow> subst_map outcome" where
  "LoadGSUBTable table required_feature_tag script_tag lang_sys_tag =
     (case table of
        None \<Rightarrow> Returns []
      | Some gsub \<Rightarrow>
          let gsub_size = length gsub in
          if FT_ULong_minus gsub_size 2 < 8 then Returns []
          else
            obind (GetOffset16 gsub 4) (\<lambda>script_list_offset.
            obind (ReadScriptFeatureIndices gsub script_list_offset script_tag lang_sys_tag)
              (\<lambda>feature_indices.
            obind (GetOffset16 gsub 6) (\<lambda>feature_list_offset.
            obind (GetOffset16 gsub 8) (\<lambda>lookup_list_offset.
            obind (GetUint16 gsub lookup_list_offset) (\<lambda>lookup_count.
              if gsub_size < lookup_list_offset + 2 \<or> gsub_size < feature_list_offset + 2
              then Returns []
              else
                obind (GetUint16 gsub feature_list_offset) (\<lambda>feature_count.
                obind (LoadGSUBTable_feature_loop gsub required_feature_tag feature_list_offset
                         lookup_list_offset feature_count feature_indices []) (\<lambda>r.
                  Returns (case r of None \<Rightarrow> [] | Some m \<Rightarrow> m))))))))) "

section \<open>The renderer and its collaborators\<close>

text \<open>
  Modelled from the spec: \<open>FontProviderError\<close>, \<open>FontfaceInfo\<close>, \<open>TextRenderStatus\<close>,
  \<open>TextRenderFallbackPolicy\<close>, \<open>CharStyle\<close>, \<open>UnderlineInfo\<close> and \<open>Rect\<close>, which are declared
  in headers that are not among the sources. They are given with the enumerators and
  fields that text\_renderer\_freetype.cpp names and the specification describes (sections
  3 and 7); \<open>kFontNotFound\<close> of \<open>TextRenderStatus\<close> is there because the specification maps
  the provider's errors one to one to statuses. A \<open>CharStyle\<close> value is a set of flags, and
  \<open>style & flag\<close> is membership. The arguments of \<open>Rect\<close> are left, top, right and bottom.
\<close>

datatype FontProviderError = FontProviderError_kFontNotFound | FontProviderError_kOtherError

record FontfaceInfo =
  info_family_name :: string
  info_postscript_name :: string
  info_filename :: string
  info_face_index :: int
  info_font_data :: "byte list"

datatype TextRenderStatus = kOK | kFontNotFound | kCodePointNotFound | kOtherError

datatype TextRenderFallbackPolicy = kAuto | kFailOnCodePointNotFound

datatype CharStyle = kCharStyleStroke | kCharStyleUnderline

record UnderlineInfo =
  start_x :: int
  width :: int

datatype Rect = Rect int int int int

type_synonym ColorRGBA = "32 word"

text \<open>
  What FreeType hands out: an entry of the SFNT name table and the scaled metrics, with the
  constants of its header ttnameid.h.
\<close>

record FT_SfntName =
  platform_id :: nat
  name_id :: nat
  name_string :: string

record FT_Size_Metrics =
  metrics_ascender :: int
  metrics_descender :: int
  metrics_x_scale :: int

definition TT_NAME_ID_FONT_FAMILY :: nat where "TT_NAME_ID_FONT_FAMILY = 1"
definition TT_NAME_ID_FULL_NAME :: nat where "TT_NAME_ID_FULL_NAME = 4"
definition TT_PLATFORM_MICROSOFT :: nat where "TT_PLATFORM_MICROSOFT = 3"

text \<open>
  The calls that leave the renderer are recorded, in order: the queries to the font
  provider, the opening of faces and the operations of the outline library on a glyph.
  A collaborator whose answer may differ from one call to the next is given the calls made
  so far, so that its answer is a function of the history.
\<close>

datatype ('face, 'glyph) call =
    Call_GetFontFace string "32 word option"
  | Call_New_Face string int
  | Call_New_Memory_Face "byte list" int
  | Call_Set_Pixel_Sizes 'face nat nat
  | Call_Load_Glyph 'face nat
  | Call_Get_Glyph 'face
  | Call_Glyph_StrokeBorder 'glyph int
  | Call_Glyph_To_Bitmap 'glyph

text \<open>
  The collaborators: the font provider, FreeType, the canvas, and the helpers declared
  outside the sources. \<open>'face\<close> is what an \<open>FT_Face\<close> points to, \<open>'glyph\<close> an \<open>FT_Glyph\<close>,
  \<open>'bmp\<close> a \<open>Bitmap\<close>. A function returning \<open>bool\<close> returns an \<open>FT_Error\<close>: \<open>True\<close> is an
  error. A function returning an option returns \<open>None\<close> on error. \<open>NDEBUG\<close> tells whether
  \<open>assert\<close> is compiled out.
\<close>

record ('face, 'glyph, 'bmp) env =
  NDEBUG :: bool
  GetFontFace :: "('face, 'glyph) call list \<Rightarrow> string \<Rightarrow> 32 word option \<Rightarrow> FontProviderError + FontfaceInfo"
  FontProviderErrorToStatus :: "FontProviderError \<Rightarrow> TextRenderStatus"
  FT_New_Face :: "('face, 'glyph) call list \<Rightarrow> string \<Rightarrow> int \<Rightarrow> 'face option"
  FT_New_Memory_Face :: "('face, 'glyph) call list \<Rightarrow> byte list \<Rightarrow> int \<Rightarrow> 'face option"
  num_faces :: "'face \<Rightarrow> 64 word"
  FT_Get_Postscript_Name :: "'face \<Rightarrow> string option"
  FT_Get_Sfnt_Names :: "'face \<Rightarrow> FT_SfntName option list"
  ConvertUTF16BEToUTF8 :: "string \<Rightarrow> nat \<Rightarrow> string"
  FT_Get_Char_Index :: "'face \<Rightarrow> 32 word \<Rightarrow> nat"
  FT_Load_Sfnt_Table :: "'face \<Rightarrow> byte list option"
  FT_Set_Pixel_Sizes :: "('face, 'glyph) call list \<Rightarrow> 'face \<Rightarrow> nat \<Rightarrow> nat \<Rightarrow> bool"
  size_metrics :: "'face \<Rightarrow> nat \<Rightarrow> nat \<Rightarrow> FT_Size_Metrics"
  face_underline_position :: "'face \<Rightarrow> int"
  face_underline_thickness :: "'face \<Rightarrow> int"
  FT_MulFix :: "int \<Rightarrow> int \<Rightarrow> int"
  FT_Load_Glyph :: "('face, 'glyph) call list \<Rightarrow> 'face \<Rightarrow> nat \<Rightarrow> bool"
  FT_Get_Glyph :: "('face, 'glyph) call list \<Rightarrow> 'face \<Rightarrow> 'glyph option"
  FT_Glyph_StrokeBorder :: "('face, 'glyph) call list \<Rightarrow> 'glyph \<Rightarrow> int \<Rightarrow> 'glyph"
  FT_Glyph_To_Bitmap :: "('face, 'glyph) call list \<Rightarrow> 'glyph \<Rightarrow> 'glyph option"
  bitmap_left :: "'glyph \<Rightarrow> int"
  bitmap_top :: "'glyph \<Rightarrow> int"
  FTBitmapToColoredBitmap :: "'glyph \<Rightarrow> ColorRGBA \<Rightarrow> 'bmp"
  DrawRect :: "'bmp \<Rightarrow> ColorRGBA \<Rightarrow> Rect \<Rightarrow> 'bmp"
  DrawBitmap :: "'bmp \<Rightarrow> 'bmp \<Rightarrow> int \<Rightarrow> int \<Rightarrow> 'bmp"

text \<open>
  The data members of \<open>TextRendererFreetype\<close> that the functions below read or write;
  \<open>m_font_family\<close> is the member \<^verbatim>\<open>font_family_\<close>, and so on. A
  \<open>ScopedHolder<FT_Face>\<close> is empty (\<open>None\<close>) or owns a face; a
  \<open>std::optional\<close> map is absent (\<open>None\<close>) or computed.
\<close>

record 'face TextRendererFreetype =
  m_font_family :: "string list"
  m_main_face :: "'face option"
  m_fallback_face :: "'face option"
  m_main_face_data :: "byte list"
  m_fallback_face_data :: "byte list"
  m_main_face_index :: nat
  m_main_half_width_subst_map :: "subst_map option"
  m_fallback_half_width_subst_map :: "subst_map option"

text \<open>
  The local variable \<open>face\<close> of \<open>DrawChar\<close> points to the face of one of the two slots. Two
  open faces are two objects, so \<^verbatim>\<open>face == main_face_\<close> holds exactly when the main slot was
  selected.
\<close>

datatype face_slot = MainFace | FallbackFace

text \<open>
  C++ \<open>/\<close> and \<open>%\<close> on \<open>int\<close> truncate towards zero. \<open>int\<close> arithmetic is on unbounded
  integers. \<open>static_cast<FT_UInt>\<close> of an \<open>int\<close> is its value modulo \<open>2 ^ 32\<close>.
\<close>

definition int_div :: "int \<Rightarrow> int \<Rightarrow> int" where
  "int_div a b = sgn a * sgn b * (\<bar>a\<bar> div \<bar>b\<bar>)"

definition int_rem :: "int \<Rightarrow> int \<Rightarrow> int" where
  "int_rem a b = a - b * int_div a b"

definition to_FT_UInt :: "int \<Rightarrow> nat" where
  "to_FT_UInt x = nat (x mod 2 ^ 32)"

section \<open>SetFontFamily (lines 58--74)\<close>

definition SetFontFamily ::
  "'face TextRendererFreetype \<Rightarrow> string list \<Rightarrow> bool \<times> 'face TextRendererFreetype" where
  "SetFontFamily st font_family =
     (if font_family = [] then (False, st)
      else
        let st1 = (if m_font_family st \<noteq> [] \<and> m_font_family st \<noteq> font_family
                   then st\<lparr>m_main_face := None, m_fallback_face := None,
                           m_main_face_data := [], m_fallback_face_data := [],
                           m_main_face_index := 0\<rparr>
                   else st)
        in (True, st1\<lparr>m_font_family := font_family\<rparr>))"

section \<open>MatchFontFamilyName (lines 650--675)\<close>

text \<open>
  \<open>FT_Get_Sfnt_Names\<close> lists what \<open>FT_Get_Sfnt_Name\<close> gives for the indices below
  \<open>FT_Get_Sfnt_Name_Count\<close>; \<open>None\<close> is an error, and the entry is skipped.
\<close>

fun MatchFontFamilyName_loop ::
  "('face, 'glyph, 'bmp) env \<Rightarrow> FT_SfntName option list \<Rightarrow> string \<Rightarrow> bool" where
  "MatchFontFamilyName_loop E [] family_name = False"
| "MatchFontFamilyName_loop E (None # names) family_name =
     MatchFontFamilyName_loop E names family_name"
| "MatchFontFamilyName_loop E (Some sfnt_name # names) family_name =
     (if name_id sfnt_name = TT_NAME_ID_FONT_FAMILY \<or> name_id sfnt_name = TT_NAME_ID_FULL_NAME
      then
        let name_str = (if platform_id sfnt_name = TT_PLATFORM_MICROSOFT
                        then ConvertUTF16BEToUTF8 E (name_string sfnt_name)
                               (length (name_string sfnt_name) div 2)
                        else name_string sfnt_name)
        in if name_str = family_name then True
           else MatchFontFamilyName_loop E names family_name
      else MatchFontFamilyName_loop E names family_name)"

definition MatchFontFamilyName :: "('face, 'glyph, 'bmp) env \<Rightarrow> 'face \<Rightarrow> string \<Rightarrow> bool" where
  "MatchFontFamilyName E face family_name =
     MatchFontFamilyName_loop E (FT_Get_Sfnt_Names E face) family_name"

section \<open>LoadFontFace (lines 677--770)\<close>

text \<open>
  The \<open>while\<close> loop of lines 691--695: the next family is tried as long as the provider
  answers with an error and a family is left.
\<close>

function LoadFontFace_provider_loop ::
  "('face, 'glyph, 'bmp) env \<Rightarrow> string list \<Rightarrow> 32 word option \<Rightarrow> nat
     \<Rightarrow> FontProviderError + FontfaceInfo \<Rightarrow> ('face, 'glyph) call list
     \<Rightarrow> (FontProviderError + FontfaceInfo) \<times> nat \<times> ('face, 'glyph) call list" where
  "LoadFontFace_provider_loop E font_family codepoint font_index result calls =
     (if isl result \<and> font_index + 1 < length font_family
      then LoadFontFace_provider_loop E font_family codepoint (font_index + 1)
             (GetFontFace E calls (font_family ! (font_index + 1)) codepoint)
             (calls @ [Call_GetFontFace (font_family ! (font_index + 1)) codepoint])
      else (result, font_index, calls))"
  by pat_completeness auto
termination
  by (relation "measure (\<lambda>(E, font_family, codepoint, font_index, result, calls).
                           length font_family - font_index)") auto

text \<open>
  To speak about the walk: the queries for the families \<open>b, \<dots>, i - 1\<close> in this order, and
  the provider's answer for family \<open>i\<close> after them.
\<close>

definition provider_queries ::
  "string list \<Rightarrow> 32 word option \<Rightarrow> nat \<Rightarrow> nat \<Rightarrow> ('face, 'glyph) call list" where
  "provider_queries font_family codepoint b i =
     map (\<lambda>j. Call_GetFontFace (font_family ! j) codepoint) [b..<i]"

definition provider_answer ::
  "('face, 'glyph, 'bmp) env \<Rightarrow> ('face, 'glyph) call list \<Rightarrow> string list \<Rightarrow> 32 word option
     \<Rightarrow> nat \<Rightarrow> nat \<Rightarrow> FontProviderError + FontfaceInfo" where
  "provider_answer E calls font_family codepoint b i =
     GetFontFace E (calls @ provider_queries font_family codepoint b i) (font_family ! i) codepoint"

text \<open>\<open>FT_New_Face\<close> or \<open>FT_New_Memory_Face\<close>, as lines 719--731 and 746--758 choose.\<close>

definition LoadFontFace_open ::
  "('face, 'glyph, 'bmp) env \<Rightarrow> bool \<Rightarrow> string \<Rightarrow> byte list \<Rightarrow> int \<Rightarrow> ('face, 'glyph) call list
     \<Rightarrow> 'face option \<times> ('face, 'glyph) call list" where
  "LoadFontFace_open E use_memory_data file memory_data index calls =
     (if \<not> use_memory_data
      then (FT_New_Face E calls file index, calls @ [Call_New_Face file index])
      else (FT_New_Memory_Face E calls memory_data index,
            calls @ [Call_New_Memory_Face memory_data index]))"

text \<open>
  The test of lines 761--766. \<open>FT_Get_Postscript_Name\<close> may return a null pointer, and
  comparing a \<open>std::string\<close> with it reads through that pointer.
\<close>

definition LoadFontFace_names_match ::
  "('face, 'glyph, 'bmp) env \<Rightarrow> FontfaceInfo \<Rightarrow> 'face \<Rightarrow> bool outcome" where
  "LoadFontFace_names_match E info face =
     (if info_postscript_name info \<noteq> [] then
        (case FT_Get_Postscript_Name E face of
           None \<Rightarrow> Fails NullPointerRead
         | Some name \<Rightarrow>
             Returns (info_postscript_name info = name
                      \<or> (info_family_name info \<noteq> [] \<and> MatchFontFamilyName E face (info_family_name info))))
      else Returns (info_family_name info \<noteq> [] \<and> MatchFontFamilyName E face (info_family_name info)))"

text \<open>
  The loop of lines 743--767 over the faces of the file. \<open>i\<close> and \<open>face->num_faces\<close> are
  \<open>FT_Long\<close> (64 bits, signed); \<open>face\<close> is the face opened last.
\<close>

function LoadFontFace_find_face ::
  "('face, 'glyph, 'bmp) env \<Rightarrow> FontfaceInfo \<Rightarrow> bool \<Rightarrow> byte list \<Rightarrow> nat \<Rightarrow> 'face \<Rightarrow> int
     \<Rightarrow> ('face, 'glyph) call list
     \<Rightarrow> ((FontProviderError + 'face \<times> nat) \<times> ('face, 'glyph) call list) outcome" where
  "LoadFontFace_find_face E info use_memory_data memory_data font_index face i calls =
     (if i < sint (num_faces E face) then
        (case LoadFontFace_open E use_memory_data (info_filename info) memory_data i calls of
           (None, calls') \<Rightarrow> Returns (Inl FontProviderError_kFontNotFound, calls')
         | (Some face', calls') \<Rightarrow>
             obind (LoadFontFace_names_match E info face') (\<lambda>found.
               if found then Returns (Inr (face', font_index), calls')
               else LoadFontFace_find_face E info use_memory_data memory_data font_index face'
                      (i + 1) calls'))
      else Returns (Inl FontProviderError_kFontNotFound, calls))"
  by pat_completeness auto
termination
proof (relation "measure (\<lambda>(E, info, use_memory_data, memory_data, font_index, face, i, calls).
                            nat (2 ^ 63 - i))", goal_cases)
  case 1
  show ?case by simp
next
  case (2 E info use_memory_data memory_data font_index face i calls x1 x2 y found)
  have "sint (num_faces E face) < 2 ^ 63"
    using sint_lt [of "num_faces E face"] by simp
  with 2 show ?case by simp
qed

text \<open>
  \<^verbatim>\<open>font_family_[font_index]\<close> (line 688) has no check of its own: when the family list is
  empty and no \<open>begin_index\<close> is given, it reads past the end of the vector.
\<close>

definition LoadFontFace ::
  "('face, 'glyph, 'bmp) env \<Rightarrow> 'face TextRendererFreetype \<Rightarrow> bool \<Rightarrow> 32 word option \<Rightarrow> nat option
     \<Rightarrow> ('face, 'glyph) call list
     \<Rightarrow> ((FontProviderError + 'face \<times> nat) \<times> 'face TextRendererFreetype
          \<times> ('face, 'glyph) call list) outcome" where
  "LoadFontFace E st is_fallback codepoint begin_index calls =
     (if (case begin_index of Some b \<Rightarrow> b \<ge> length (m_font_family st) | None \<Rightarrow> False)
      then Returns (Inl FontProviderError_kFontNotFound, st, calls)
      else
        let font_index = (case begin_index of Some b \<Rightarrow> b | None \<Rightarrow> 0) in
        if font_index \<ge> length (m_font_family st) then Fails OutOfBoundsRead
        else
          (case LoadFontFace_provider_loop E (m_font_family st) codepoint font_index
                  (GetFontFace E calls (m_font_family st ! font_index) codepoint)
                  (calls @ [Call_GetFontFace (m_font_family st ! font_index) codepoint]) of
             (Inl error, font_index, calls1) \<Rightarrow> Returns (Inl error, st, calls1)
           | (Inr info, font_index, calls1) \<Rightarrow>
               let use_memory_data = (info_font_data info \<noteq> []);
                   st1 = (if use_memory_data then
                            if \<not> is_fallback
                            then st\<lparr>m_main_face := None, m_main_face_data := info_font_data info\<rparr>
                            else st\<lparr>m_fallback_face := None, m_fallback_face_data := info_font_data info\<rparr>
                          else st)
               in
                 (case LoadFontFace_open E use_memory_data (info_filename info) (info_font_data info)
                         (info_face_index info) calls1 of
                    (None, calls2) \<Rightarrow> Returns (Inl FontProviderError_kFontNotFound, st1, calls2)
                  | (Some face, calls2) \<Rightarrow>
                      if info_face_index info \<ge> 0 then Returns (Inr (face, font_index), st1, calls2)
                      else if info_family_name info = [] \<and> info_postscript_name info = []
                      then Returns (Inl FontProviderError_kOtherError, st1, calls2)
                      else
                        obind (LoadFontFace_find_face E info use_memory_data (info_font_data info)
                                 font_index face 0 calls2) (\<lambda>(result, calls3).
                          Returns (result, st1, calls3)))))"

text \<open>
  To speak about the opening of the face the provider named: the call that opens the face
  with index \<open>i\<close>, from the file or from memory as lines 719--731 choose; the calls for the
  indices \<open>0, \<dots>, j - 1\<close> in this order, as the loop of lines 743--767 makes them; and
  what the opening of index \<open>i\<close> gives after the calls made so far.
\<close>

definition face_open_call :: "FontfaceInfo \<Rightarrow> int \<Rightarrow> ('face, 'glyph) call" where
  "face_open_call info i =
     (if info_font_data info = [] then Call_New_Face (info_filename info) i
      else Call_New_Memory_Face (info_font_data info) i)"

definition face_open_calls :: "FontfaceInfo \<Rightarrow> nat \<Rightarrow> ('face, 'glyph) call list" where
  "face_open_calls info j = map (\<lambda>i. face_open_call info (int i)) [0..<j]"

definition face_opened ::
  "('face, 'glyph, 'bmp) env \<Rightarrow> FontfaceInfo \<Rightarrow> ('face, 'glyph) call list \<Rightarrow> int \<Rightarrow> 'face option" where
  "face_opened E info calls i =
     (if info_font_data info = [] then FT_New_Face E calls (info_filename info) i
      else FT_New_Memory_Face E calls (info_font_data info) i)"

section \<open>DrawChar (lines 442--634)\<close>

text \<open>Lines 458--469: the main face is loaded when the main slot is empty.\<close>

definition DrawChar_main_face ::
  "('face, 'glyph, 'bmp) env \<Rightarrow> 'face TextRendererFreetype \<Rightarrow> ('face, 'glyph) call list
     \<Rightarrow> ((TextRenderStatus + 'face) \<times> 'face TextRendererFreetype
          \<times> ('face, 'glyph) call list) outcome" where
  "DrawChar_main_face E st calls =
     (case m_main_face st of
        Some face \<Rightarrow> Returns (Inr face, st, calls)
      | None \<Rightarrow>
          obind (LoadFontFace E st False None None calls) (\<lambda>(result, st1, calls1).
            case result of
              Inl error \<Rightarrow> Returns (Inl (FontProviderErrorToStatus E error), st1, calls1)
            | Inr (face, index) \<Rightarrow>
                Returns (Inr face, st1\<lparr>m_main_face := Some face, m_main_face_index := index\<rparr>,
                         calls1)))"

text \<open>
  Lines 471--506: the glyph index, and the fallback face when the main face has no glyph
  for the code point.
\<close>

definition DrawChar_glyph_index ::
  "('face, 'glyph, 'bmp) env \<Rightarrow> 'face TextRendererFreetype \<Rightarrow> 'face \<Rightarrow> 32 word
     \<Rightarrow> TextRenderFallbackPolicy \<Rightarrow> ('face, 'glyph) call list
     \<Rightarrow> ((TextRenderStatus + face_slot \<times> 'face \<times> nat) \<times> 'face TextRendererFreetype
          \<times> ('face, 'glyph) call list) outcome" where
  "DrawChar_glyph_index E st main ucs4 fallback_policy calls =
     (if FT_Get_Char_Index E main ucs4 \<noteq> 0
      then Returns (Inr (MainFace, main, FT_Get_Char_Index E main ucs4), st, calls)
      else if fallback_policy = kFailOnCodePointNotFound
      then Returns (Inl kCodePointNotFound, st, calls)
      else
        (case (case m_fallback_face st of
                 Some fallback \<Rightarrow>
                   if FT_Get_Char_Index E fallback ucs4 \<noteq> 0 then Some fallback else None
               | None \<Rightarrow> None) of
           Some fallback \<Rightarrow>
             Returns (Inr (FallbackFace, fallback, FT_Get_Char_Index E fallback ucs4), st, calls)
         | None \<Rightarrow>
             if m_main_face_index st + 1 \<ge> length (m_font_family st)
             then Returns (Inl kCodePointNotFound, st, calls)
             else
               obind (LoadFontFace E st True (Some ucs4) (Some (m_main_face_index st + 1)) calls)
                 (\<lambda>(result, st1, calls1).
                   case result of
                     Inl error \<Rightarrow> Returns (Inl (FontProviderErrorToStatus E error), st1, calls1)
                   | Inr (face, index) \<Rightarrow>
                       if FT_Get_Char_Index E face ucs4 = 0
                       then Returns (Inl kCodePointNotFound, st1\<lparr>m_fallback_face := Some face\<rparr>,
                                     calls1)
                       else Returns (Inr (FallbackFace, face, FT_Get_Char_Index E face ucs4),
                                     st1\<lparr>m_fallback_face := Some face\<rparr>, calls1))))"

text \<open>Line 520: the map of the selected slot.\<close>

definition DrawChar_subst_map :: "'face TextRendererFreetype \<Rightarrow> face_slot \<Rightarrow> subst_map option" where
  "DrawChar_subst_map st slot =
     (case slot of
        MainFace \<Rightarrow> m_main_half_width_subst_map st
      | FallbackFace \<Rightarrow> m_fallback_half_width_subst_map st)"

text \<open>
  Lines 508--528: the half-width substitution. The result is the renderer with the map of
  the selected slot computed, the glyph index and \<open>char_width\<close>.
\<close>

definition DrawChar_half_width ::
  "('face, 'glyph, 'bmp) env \<Rightarrow> 'face TextRendererFreetype \<Rightarrow> face_slot \<Rightarrow> 'face \<Rightarrow> nat
     \<Rightarrow> int \<Rightarrow> int \<Rightarrow> ('face TextRendererFreetype \<times> nat \<times> int) outcome" where
  "DrawChar_half_width E st slot face glyph_index char_width char_height =
     (if char_width = int_div char_height 2 then
        obind
          (case slot of
             MainFace \<Rightarrow>
               (case m_main_half_width_subst_map st of
                  None \<Rightarrow>
                    obind (LoadGSUBTable (FT_Load_Sfnt_Table E face) kOpenTypeFeatureHalfWidth
                             kOpenTypeScriptHiraganaKatakana kOpenTypeLangSysJapanese) (\<lambda>m.
                      Returns (st\<lparr>m_main_half_width_subst_map := Some m\<rparr>))
                | Some m \<Rightarrow> Returns st)
           | FallbackFace \<Rightarrow>
               if m_fallback_face st \<noteq> None then
                 (case m_fallback_half_width_subst_map st of
                    None \<Rightarrow>
                      obind (LoadGSUBTable (FT_Load_Sfnt_Table E face) kOpenTypeFeatureHalfWidth
                               kOpenTypeScriptHiraganaKatakana kOpenTypeLangSysJapanese) (\<lambda>m.
                        Returns (st\<lparr>m_fallback_half_width_subst_map := Some m\<rparr>))
                  | Some m \<Rightarrow> Returns st)
               else Returns st)
          (\<lambda>st1.
            case DrawChar_subst_map st1 slot of
              None \<Rightarrow> Returns (st1, glyph_index, char_width)
            | Some subst_map \<Rightarrow>
                (case map_of subst_map glyph_index of
                   Some subst \<Rightarrow> Returns (st1, subst, char_height)
                 | None \<Rightarrow> Returns (st1, glyph_index, char_width)))
      else Returns (st, glyph_index, char_width))"

text \<open>
  Lines 561--588: the bitmap of the stroke border, \<open>None\<close> when no stroke is asked for.
  \<open>FT_Stroker_New\<close>, \<open>FT_Stroker_Set\<close> and \<open>FT_Glyph_StrokeBorder\<close> are called without a look
  at their results; together they are \<open>FT_Glyph_StrokeBorder\<close> here. \<open>stroke_width\<close> is a
  \<open>float\<close>, modelled as a real number.
\<close>

definition DrawChar_stroke ::
  "('face, 'glyph, 'bmp) env \<Rightarrow> 'face \<Rightarrow> CharStyle set \<Rightarrow> real \<Rightarrow> ('face, 'glyph) call list
     \<Rightarrow> (TextRenderStatus + 'glyph option) \<times> ('face, 'glyph) call list" where
  "DrawChar_stroke E face style stroke_width calls =
     (if kCharStyleStroke \<in> style \<and> stroke_width > 0 then
        (case FT_Get_Glyph E calls face of
           None \<Rightarrow> (Inl kOtherError, calls @ [Call_Get_Glyph face])
         | Some stroke_glyph \<Rightarrow>
             let calls1 = calls @ [Call_Get_Glyph face];
                 radius = \<lfloor>stroke_width * 64\<rfloor>;
                 stroked = FT_Glyph_StrokeBorder E calls1 stroke_glyph radius;
                 calls2 = calls1 @ [Call_Glyph_StrokeBorder stroke_glyph radius]
             in
               (case FT_Glyph_To_Bitmap E calls2 stroked of
                  None \<Rightarrow> (Inl kOtherError, calls2 @ [Call_Glyph_To_Bitmap stroked])
                | Some border_glyph_image \<Rightarrow>
                    (Inr (Some border_glyph_image), calls2 @ [Call_Glyph_To_Bitmap stroked])))
      else (Inr None, calls))"

text \<open>
  Lines 530--588 without the metrics: the operations of the outline library. The result is
  \<open>Inl\<close> with the status returned when one of them fails, or \<open>Inr\<close> with the fill bitmap and
  the border bitmap.
\<close>

definition DrawChar_outline ::
  "('face, 'glyph, 'bmp) env \<Rightarrow> 'face \<Rightarrow> nat \<Rightarrow> CharStyle set \<Rightarrow> real \<Rightarrow> int \<Rightarrow> int
     \<Rightarrow> ('face, 'glyph) call list
     \<Rightarrow> (TextRenderStatus + 'glyph \<times> 'glyph option) \<times> ('face, 'glyph) call list" where
  "DrawChar_outline E face glyph_index style stroke_width char_width char_height calls =
     (let calls1 = calls @ [Call_Set_Pixel_Sizes face (to_FT_UInt char_width) (to_FT_UInt char_height)]
      in
      if FT_Set_Pixel_Sizes E calls face (to_FT_UInt char_width) (to_FT_UInt char_height)
      then (Inl kOtherError, calls1)
      else
        let calls2 = calls1 @ [Call_Load_Glyph face glyph_index] in
        if FT_Load_Glyph E calls1 face glyph_index then (Inl kOtherError, calls2)
        else
          let calls3 = calls2 @ [Call_Get_Glyph face] in
          (case FT_Get_Glyph E calls2 face of
             None \<Rightarrow> (Inl kOtherError, calls3)
           | Some outline \<Rightarrow>
               let calls4 = calls3 @ [Call_Glyph_To_Bitmap outline] in
               (case FT_Glyph_To_Bitmap E calls3 outline of
                  None \<Rightarrow> (Inl kOtherError, calls4)
                | Some glyph_image \<Rightarrow>
                    (case DrawChar_stroke E face style stroke_width calls4 of
                       (Inl status, calls5) \<Rightarrow> (Inl status, calls5)
                     | (Inr border_glyph_image, calls5) \<Rightarrow>
                         (Inr (glyph_image, border_glyph_image), calls5)))))"

text \<open>
  Lines 535--542 and 590--631: the metrics of the sized face, the underline, the border
  bitmap and the fill bitmap, drawn into the target bitmap in this order. \<open>>> 6\<close> on a
  signed value is the division by 64 that rounds down. \<open>glyph_image\<close> is not null here,
  since \<open>FT_Glyph_To_Bitmap\<close> has succeeded, and \<open>border_glyph_image\<close> is not null exactly
  when the stroke was made.
\<close>

definition DrawChar_paint ::
  "('face, 'glyph, 'bmp) env \<Rightarrow> 'face \<Rightarrow> 'bmp \<Rightarrow> int \<Rightarrow> int \<Rightarrow> CharStyle set \<Rightarrow> ColorRGBA
     \<Rightarrow> ColorRGBA \<Rightarrow> int \<Rightarrow> int \<Rightarrow> UnderlineInfo option \<Rightarrow> 'glyph \<Rightarrow> 'glyph option \<Rightarrow> 'bmp" where
  "DrawChar_paint E face target_bmp target_x target_y style color stroke_color char_width
       char_height underline_info glyph_image border_glyph_image =
     (let metrics = size_metrics E face (to_FT_UInt char_width) (to_FT_UInt char_height);
          baseline = metrics_ascender metrics div 64;
          ascender = metrics_ascender metrics div 64;
          descender = metrics_descender metrics div 64;
          underline = FT_MulFix E (face_underline_position E face) (metrics_x_scale metrics) div 64;
          underline_thickness =
            FT_MulFix E (face_underline_thickness E face) (metrics_x_scale metrics) div 64;
          em_height = ascender + \<bar>descender\<bar>;
          em_adjust_y = int_div (char_height - em_height) 2;
          bmp1 =
            (case underline_info of
               Some info \<Rightarrow>
                 if kCharStyleUnderline \<in> style \<and> underline_thickness > 0 then
                   let underline_y = target_y + baseline + em_adjust_y + \<bar>underline\<bar>;
                       half_thickness = int_div underline_thickness 2
                   in
                     if int_rem underline_thickness 2 \<noteq> 0
                     then DrawRect E target_bmp color
                            (Rect (start_x info) (underline_y - half_thickness)
                                  (start_x info + width info) (underline_y + 1 + half_thickness))
                     else DrawRect E target_bmp color
                            (Rect (start_x info) (underline_y - (half_thickness - 1))
                                  (start_x info + width info) (underline_y + 1 + half_thickness))
                 else target_bmp
             | None \<Rightarrow> target_bmp);
          bmp2 =
            (case border_glyph_image of
               Some border \<Rightarrow>
                 DrawBitmap E bmp1 (FTBitmapToColoredBitmap E border stroke_color)
                   (target_x + bitmap_left E border)
                   (target_y + baseline + em_adjust_y - bitmap_top E border)
             | None \<Rightarrow> bmp1)
      in
        DrawBitmap E bmp2 (FTBitmapToColoredBitmap E glyph_image color)
          (target_x + bitmap_left E glyph_image)
          (target_y + baseline + em_adjust_y - bitmap_top E glyph_image))"

text \<open>The test of lines 453--454.\<close>

definition DrawChar_is_space :: "32 word \<Rightarrow> bool" where
  "DrawChar_is_space ucs4 \<longleftrightarrow>
     ucs4 = 0x0009 \<or> ucs4 = 0x0020 \<or> ucs4 = 0x00A0 \<or> ucs4 = 0x1680 \<or>
     ucs4 = 0x3000 \<or> ucs4 = 0x202F \<or> ucs4 = 0x205F \<or> (ucs4 \<ge> 0x2000 \<and> ucs4 \<le> 0x200A)"

text \<open>
  The whole function. Its result is the status, the renderer, the target bitmap and the
  calls made, after those made before.
\<close>

definition DrawChar ::
  "('face, 'glyph, 'bmp) env \<Rightarrow> 'face TextRendererFreetype \<Rightarrow> 'bmp \<Rightarrow> int \<Rightarrow> int \<Rightarrow> 32 word
     \<Rightarrow> CharStyle set \<Rightarrow> ColorRGBA \<Rightarrow> ColorRGBA \<Rightarrow> real \<Rightarrow> int \<Rightarrow> int \<Rightarrow> UnderlineInfo option
     \<Rightarrow> TextRenderFallbackPolicy \<Rightarrow> ('face, 'glyph) call list
     \<Rightarrow> (TextRenderStatus \<times> 'face TextRendererFreetype \<times> 'bmp \<times> ('face, 'glyph) call list) outcome"
  where
  "DrawChar E st target_bmp target_x target_y ucs4 style color stroke_color stroke_width
       char_width char_height underline_info fallback_policy calls =
     (if \<not> NDEBUG E \<and> \<not> char_height > 0 then Fails AssertionFailure
      else if DrawChar_is_space ucs4 then Returns (kOK, st, target_bmp, calls)
      else
        obind (DrawChar_main_face E st calls) (\<lambda>(r, st1, calls1).
          case r of
            Inl status \<Rightarrow> Returns (status, st1, target_bmp, calls1)
          | Inr main \<Rightarrow>
              obind (DrawChar_glyph_index E st1 main ucs4 fallback_policy calls1)
                (\<lambda>(r, st2, calls2).
                  case r of
                    Inl status \<Rightarrow> Returns (status, st2, target_bmp, calls2)
                  | Inr (slot, face, glyph_index) \<Rightarrow>
                      obind (DrawChar_half_width E st2 slot face glyph_index char_width char_height)
                        (\<lambda>(st3, glyph_index', char_width').
                          case DrawChar_outline E face glyph_index' style
                                 (if stroke_width < 0 then 0 else stroke_width)
                                 char_width' char_height calls2 of
                            (Inl status, calls3) \<Rightarrow> Returns (status, st3, target_bmp, calls3)
                          | (Inr (glyph_image, border_glyph_image), calls3) \<Rightarrow>
                              Returns (kOK, st3,
                                DrawChar_paint E face target_bmp target_x target_y style color
                                  stroke_color char_width' char_height underline_info glyph_image
                                  border_glyph_image,
                                calls3)))))"

section \<open>A concrete font, provider and canvas\<close>

text \<open>
  A well-formed \<open>GSUB\<close> table of 70 bytes: the script \<open>kana\<close> with a default LangSys naming
  feature 0, the feature \<open>hwid\<close> with lookup 0, and a single substitution of format 1 that
  adds 5 to the glyphs 10 and 20.
\<close>

definition sample_gsub :: "byte list" where
  "sample_gsub =
     [0, 1, 0, 0, 0, 10, 0, 30, 0, 44,
      0, 1, 0x6B, 0x61, 0x6E, 0x61, 0, 8, 0, 4, 0, 0, 0, 0, 0xFF, 0xFF, 0, 1, 0, 0,
      0, 1, 0x68, 0x77, 0x69, 0x64, 0, 8, 0, 0, 0, 1, 0, 0,
      0, 1, 0, 4, 0, 1, 0, 0, 0, 1, 0, 8, 0, 1, 0, 6, 0, 5, 0, 1, 0, 2, 0, 10, 0, 20]"

text \<open>
  The provider knows the family \<open>B\<close> only, in the file \<open>b.ttf\<close>. Its face has the glyph 7
  for U+0041 and the glyph 10 for U+30A2. A bitmap is the list of what was drawn into it.
\<close>

definition sample_info :: FontfaceInfo where
  "sample_info =
     \<lparr>info_family_name = ''B'', info_postscript_name = ''B-Regular'', info_filename = ''b.ttf'',
      info_face_index = 0, info_font_data = []\<rparr>"

definition sample_env :: "(nat, nat, nat list) env" where
  "sample_env =
     \<lparr>NDEBUG = False,
      GetFontFace = (\<lambda>calls name codepoint.
        if name = ''B'' then Inr sample_info else Inl FontProviderError_kFontNotFound),
      FontProviderErrorToStatus = (\<lambda>error.
        case error of FontProviderError_kFontNotFound \<Rightarrow> kFontNotFound
        | FontProviderError_kOtherError \<Rightarrow> kOtherError),
      FT_New_Face = (\<lambda>calls file index. if file = ''b.ttf'' then Some 2 else None),
      FT_New_Memory_Face = (\<lambda>calls data index. None),
      num_faces = (\<lambda>face. 1),
      FT_Get_Postscript_Name = (\<lambda>face. Some ''B-Regular''),
      FT_Get_Sfnt_Names = (\<lambda>face. []),
      ConvertUTF16BEToUTF8 = (\<lambda>s n. s),
      FT_Get_Char_Index = (\<lambda>face ucs4. if ucs4 = 0x41 then 7 else if ucs4 = 0x30A2 then 10 else 0),
      FT_Load_Sfnt_Table = (\<lambda>face. Some sample_gsub),
      FT_Set_Pixel_Sizes = (\<lambda>calls face w h. False),
      size_metrics = (\<lambda>face w h.
        \<lparr>metrics_ascender = 1792, metrics_descender = - 256, metrics_x_scale = 65536\<rparr>),
      face_underline_position = (\<lambda>face. - 128),
      face_underline_thickness = (\<lambda>face. 64),
      FT_MulFix = (\<lambda>a b. a * b div 65536),
      FT_Load_Glyph = (\<lambda>calls face glyph_index. False),
      FT_Get_Glyph = (\<lambda>calls face. Some 100),
      FT_Glyph_StrokeBorder = (\<lambda>calls glyph radius. glyph + 1),
      FT_Glyph_To_Bitmap = (\<lambda>calls glyph. Some (glyph + 1000)),
      bitmap_left = (\<lambda>glyph. 1),
      bitmap_top = (\<lambda>glyph. 20),
      FTBitmapToColoredBitmap = (\<lambda>glyph color. [glyph]),
      DrawRect = (\<lambda>bmp color rect. bmp @ [0]),
      DrawBitmap = (\<lambda>bmp src x y. bmp @ src)\<rparr>"

text \<open>A renderer right after \<open>SetFontFamily\<close>, and one whose main face is open.\<close>

definition fresh_renderer :: "string list \<Rightarrow> nat TextRendererFreetype" where
  "fresh_renderer font_family =
     \<lparr>m_font_family = font_family, m_main_face = None, m_fallback_face = None,
      m_main_face_data = [], m_fallback_face_data = [], m_main_face_index = 0,
      m_main_half_width_subst_map = None, m_fallback_half_width_subst_map = None\<rparr>"

definition loaded_renderer :: "nat TextRendererFreetype" where
  "loaded_renderer = (fresh_renderer [''B''])\<lparr>m_main_face := Some 2\<rparr>"

text \<open>
  A provider that names a collection: the family \<open>B\<close> is in the file \<open>b.ttc\<close> with three
  faces and a negative face index, and the face wanted is the one whose PostScript name is
  \<open>B-Bold\<close>, the second of the file. \<open>FT_New_Face\<close> gives the face \<open>10 + i\<close> for the index
  \<open>i\<close>. And a provider's answer that carries the font in memory.
\<close>

definition collection_info :: FontfaceInfo where
  "collection_info =
     \<lparr>info_family_name = ''B'', info_postscript_name = ''B-Bold'', info_filename = ''b.ttc'',
      info_face_index = - 1, info_font_data = []\<rparr>"

definition collection_env :: "(nat, nat, nat list) env" where
  "collection_env =
     sample_env\<lparr>
       GetFontFace := (\<lambda>calls name codepoint.
         if name = ''B'' then Inr collection_info else Inl FontProviderError_kFontNotFound),
       FT_New_Face := (\<lambda>calls file index.
         if file = ''b.ttc'' \<and> index < 3 then Some (nat (index + 10)) else None),
       num_faces := (\<lambda>face. 3),
       FT_Get_Postscript_Name := (\<lambda>face. if face = 11 then Some ''B-Bold'' else Some ''B-Regular'')\<rparr>"

definition memory_info :: FontfaceInfo where
  "memory_info =
     \<lparr>info_family_name = ''B'', info_postscript_name = ''B-Regular'', info_filename = [],
      info_face_index = 0, info_font_data = [1, 2, 3]\<rparr>"

section \<open>Basic facts\<close>

lemma obind_simps [simp]:
  "obind (Returns x) f = f x"
  "obind (Fails e) f = Fails e"
  by (simp_all add: obind_def)

lemma obind_ReturnsE:
  assumes "obind m f = Returns y"
  obtains x where "m = Returns x" and "f x = Returns y"
  using assms by (cases m) simp_all

lemma obind_FailsE:
  assumes "obind m f = Fails e"
  obtains "m = Fails e" | x where "m = Returns x" and "f x = Fails e"
  using assms by (cases m) simp_all

text \<open>The equations of the loops are unfolded on demand only.\<close>

lemmas gsub_loop_simps =
  ReadCoverageTable_glyph_loop.simps ReadCoverageTable_range_loop.simps
  ReadScriptFeatureIndices_lang_sys_loop.simps ReadScriptFeatureIndices_feature_loop.simps
  ReadScriptFeatureIndices_script_loop.simps LoadGSUBTable_substitute_loop.simps
  LoadGSUBTable_subtable_loop.simps LoadGSUBTable_lookup_loop.simps

declare gsub_loop_simps [simp del]
declare LoadFontFace_provider_loop.simps [simp del]
declare LoadFontFace_find_face.simps [simp del]

lemmas reader_defs =
  GetUint16_def GetUint32_def GetOffset16_def GetOffset32_def GetInt16_def GetTag_def
  FT_MAKE_TAG_def kOpenTypeFeatureHalfWidth_def kOpenTypeScriptHiraganaKatakana_def
  kOpenTypeLangSysJapanese_def FT_ULong_minus_def

lemma sample_env_simps [simp]:
  "NDEBUG sample_env = False"
  "GetFontFace sample_env = (\<lambda>calls name codepoint.
        if name = ''B'' then Inr sample_info else Inl FontProviderError_kFontNotFound)"
  "FontProviderErrorToStatus sample_env = (\<lambda>error.
        case error of FontProviderError_kFontNotFound \<Rightarrow> kFontNotFound
        | FontProviderError_kOtherError \<Rightarrow> kOtherError)"
  "FT_New_Face sample_env = (\<lambda>calls file index. if file = ''b.ttf'' then Some 2 else None)"
  "FT_New_Memory_Face sample_env = (\<lambda>calls data index. None)"
  "num_faces sample_env = (\<lambda>face. 1)"
  "FT_Get_Postscript_Name sample_env = (\<lambda>face. Some ''B-Regular'')"
  "FT_Get_Sfnt_Names sample_env = (\<lambda>face. [])"
  "FT_Get_Char_Index sample_env =
     (\<lambda>face ucs4. if ucs4 = 0x41 then 7 else if ucs4 = 0x30A2 then 10 else 0)"
  "FT_Load_Sfnt_Table sample_env = (\<lambda>face. Some sample_gsub)"
  "FT_Set_Pixel_Sizes sample_env = (\<lambda>calls face w h. False)"
  "size_metrics sample_env = (\<lambda>face w h.
        \<lparr>metrics_ascender = 1792, metrics_descender = - 256, metrics_x_scale = 65536\<rparr>)"
  "face_underline_position sample_env = (\<lambda>face. - 128)"
  "face_underline_thickness sample_env = (\<lambda>face. 64)"
  "FT_MulFix sample_env = (\<lambda>a b. a * b div 65536)"
  "FT_Load_Glyph sample_env = (\<lambda>calls face glyph_index. False)"
  "FT_Get_Glyph sample_env = (\<lambda>calls face. Some 100)"
  "FT_Glyph_StrokeBorder sample_env = (\<lambda>calls glyph radius. glyph + 1)"
  "FT_Glyph_To_Bitmap sample_env = (\<lambda>calls glyph. Some (glyph + 1000))"
  "bitmap_left sample_env = (\<lambda>glyph. 1)"
  "bitmap_top sample_env = (\<lambda>glyph. 20)"
  "FTBitmapToColoredBitmap sample_env = (\<lambda>glyph color. [glyph])"
  "DrawRect sample_env = (\<lambda>bmp color rect. bmp @ [0])"
  "DrawBitmap sample_env = (\<lambda>bmp src x y. bmp @ src)"
  by (simp_all add: sample_env_def)

lemma sample_info_simps [simp]:
  "info_family_name sample_info = ''B''"
  "info_postscript_name sample_info = ''B-Regular''"
  "info_filename sample_info = ''b.ttf''"
  "info_face_index sample_info = 0"
  "info_font_data sample_info = []"
  by (simp_all add: sample_info_def)

lemma fresh_renderer_simps [simp]:
  "m_font_family (fresh_renderer font_family) = font_family"
  "m_main_face (fresh_renderer font_family) = None"
  "m_fallback_face (fresh_renderer font_family) = None"
  "m_main_face_data (fresh_renderer font_family) = []"
  "m_fallback_face_data (fresh_renderer font_family) = []"
  "m_main_face_index (fresh_renderer font_family) = 0"
  "m_main_half_width_subst_map (fresh_renderer font_family) = None"
  "m_fallback_half_width_subst_map (fresh_renderer font_family) = None"
  by (simp_all add: fresh_renderer_def)

lemma collection_info_simps [simp]:
  "info_family_name collection_info = ''B''"
  "info_postscript_name collection_info = ''B-Bold''"
  "info_filename collection_info = ''b.ttc''"
  "info_face_index collection_info = - 1"
  "info_font_data collection_info = []"
  by (simp_all add: collection_info_def)

lemma collection_env_simps [simp]:
  "GetFontFace collection_env = (\<lambda>calls name codepoint.
         if name = ''B'' then Inr collection_info else Inl FontProviderError_kFontNotFound)"
  "FT_New_Face collection_env = (\<lambda>calls file index.
         if file = ''b.ttc'' \<and> index < 3 then Some (nat (index + 10)) else None)"
  "num_faces collection_env = (\<lambda>face. 3)"
  "FT_Get_Postscript_Name collection_env =
     (\<lambda>face. if face = 11 then Some ''B-Bold'' else Some ''B-Regular'')"
  "FT_Get_Sfnt_Names collection_env = (\<lambda>face. [])"
  by (simp_all add: collection_env_def)

lemma memory_info_simps [simp]:
  "info_family_name memory_info = ''B''"
  "info_postscript_name memory_info = ''B-Regular''"
  "info_filename memory_info = []"
  "info_face_index memory_info = 0"
  "info_font_data memory_info = [1, 2, 3]"
  by (simp_all add: memory_info_def)

text \<open>The model runs: the sample table is parsed to the map it describes.\<close>

lemma LoadGSUBTable_sample:
  "LoadGSUBTable (Some sample_gsub) kOpenTypeFeatureHalfWidth kOpenTypeScriptHiraganaKatakana
     kOpenTypeLangSysJapanese = Returns [(10, 15), (20, 25)]"
  by (simp add: sample_gsub_def LoadGSUBTable_def LoadGSUBTable_single_substitution_def
      ReadScriptFeatureIndices_def ReadCoverageTable_def reader_defs gsub_loop_simps)

section \<open>The GSUB parser\<close>

subsection \<open>What holds of the size check\<close>

lemma LoadGSUBTable_absent:
  "LoadGSUBTable None required_feature_tag script_tag lang_sys_tag = Returns []"
  by (simp add: LoadGSUBTable_def)

lemma LoadGSUBTable_short:
  assumes "2 \<le> length gsub" and "length gsub < 10"
  shows "LoadGSUBTable (Some gsub) required_feature_tag script_tag lang_sys_tag = Returns []"
proof -
  from assms have "\<exists>k. length gsub = k + 2 \<and> k < 8"
    by (intro exI [of _ "length gsub - 2"]) arith
  then obtain k where k: "length gsub = k + 2" and "k < 8"
    by blast
  have "FT_ULong_minus (length gsub) 2 = k"
    using \<open>k < 8\<close> by (simp add: FT_ULong_minus_def k)
  with \<open>k < 8\<close> show ?thesis
    by (simp add: LoadGSUBTable_def Let_def)
qed

lemma FT_ULong_minus_wraps:
  "n < 2 \<Longrightarrow> \<not> FT_ULong_minus n 2 < 8"
  by (cases n) (simp_all add: FT_ULong_minus_def)

text \<open>
  Claim C4: if the face has no GSUB table, or the loaded table is shorter than 10 bytes,
  \<open>LoadGSUBTable\<close> returns an empty map. The code does so for an absent table and for the
  lengths 2 to 9 (\<open>LoadGSUBTable_absent\<close>, \<open>LoadGSUBTable_short\<close>). For a table of one byte
  the unsigned subtraction \<open>gsub_size - 2\<close> wraps around, the test of line 283 does not fire,
  and line 286 reads the bytes 4 and 5 of a vector of length 1.
\<close>

theorem LoadGSUBTable_one_byte_table:
  "LoadGSUBTable (Some [0]) kOpenTypeFeatureHalfWidth kOpenTypeScriptHiraganaKatakana
     kOpenTypeLangSysJapanese = Fails OutOfBoundsRead"
  by (simp add: LoadGSUBTable_def reader_defs)

subsection \<open>What holds of the helpers\<close>

text \<open>
  Every read of \<open>ReadCoverageTable\<close> and of \<open>ReadScriptFeatureIndices\<close> comes after the check
  of its offset: the first never reads past the end of the buffer, the second always
  returns.
\<close>

lemma glyph_loop_in_bounds:
  "ReadCoverageTable_glyph_loop gsub glyph_array_offset glyph_count coverage_index coverage
     \<noteq> Fails OutOfBoundsRead"
proof (induction "glyph_count - coverage_index" arbitrary: coverage_index coverage rule: less_induct)
  case less
  have IH: "ReadCoverageTable_glyph_loop gsub glyph_array_offset glyph_count (Suc coverage_index) cov
              \<noteq> Fails OutOfBoundsRead" if "coverage_index < glyph_count" for cov
    using that by (intro less) simp
  show ?case
    by (subst ReadCoverageTable_glyph_loop.simps) (simp add: GetUint16_def IH)
qed

lemma range_loop_in_bounds:
  "ReadCoverageTable_range_loop gsub range_records_offset range_count range_index coverage_index coverage
     \<noteq> Fails OutOfBoundsRead"
proof (induction "range_count - range_index" arbitrary: range_index coverage_index coverage
    rule: less_induct)
  case less
  have IH: "ReadCoverageTable_range_loop gsub range_records_offset range_count (Suc range_index) ci cov
              \<noteq> Fails OutOfBoundsRead" if "range_index < range_count" for ci cov
    using that by (intro less) simp
  show ?case
    by (subst ReadCoverageTable_range_loop.simps)
      (simp add: GetUint16_def IH split: option.splits)
qed

lemma ReadCoverageTable_in_bounds:
  "ReadCoverageTable gsub offset \<noteq> Fails OutOfBoundsRead"
  by (simp add: ReadCoverageTable_def GetUint16_def glyph_loop_in_bounds range_loop_in_bounds)

lemma lang_sys_loop_returns:
  "ReadScriptFeatureIndices_lang_sys_loop gsub required_lang_sys_tag script_offset
     lang_sys_records_offset lang_sys_count lang_sys_index lang_sys_offset \<noteq> Fails e"
proof (induction "lang_sys_count - lang_sys_index" arbitrary: lang_sys_index rule: less_induct)
  case less
  have IH: "ReadScriptFeatureIndices_lang_sys_loop gsub required_lang_sys_tag script_offset
     lang_sys_records_offset lang_sys_count (Suc lang_sys_index) lang_sys_offset \<noteq> Fails e"
    if "lang_sys_index < lang_sys_count"
    using that by (intro less) simp
  show ?case
    by (subst ReadScriptFeatureIndices_lang_sys_loop.simps) (simp add: GetUint16_def GetTag_def IH)
qed

lemma feature_loop_returns:
  "ReadScriptFeatureIndices_feature_loop gsub feature_indices_offset feature_index_count i
     feature_indices \<noteq> Fails e"
proof (induction "feature_index_count - i" arbitrary: i feature_indices rule: less_induct)
  case less
  have IH: "ReadScriptFeatureIndices_feature_loop gsub feature_indices_offset feature_index_count
              (Suc i) fi \<noteq> Fails e" if "i < feature_index_count" for fi
    using that by (intro less) simp
  show ?case
    by (subst ReadScriptFeatureIndices_feature_loop.simps) (simp add: GetUint16_def IH)
qed

lemma script_loop_returns:
  "ReadScriptFeatureIndices_script_loop gsub script_list_offset required_script_tag
     required_lang_sys_tag script_count script_index \<noteq> Fails e"
proof (induction "script_count - script_index" arbitrary: script_index required_script_tag
    rule: less_induct)
  case less
  have IH: "ReadScriptFeatureIndices_script_loop gsub script_list_offset tag
     required_lang_sys_tag script_count (Suc script_index) \<noteq> Fails e"
    if "script_index < script_count" for tag
    using that by (intro less) simp
  show ?case
    by (subst ReadScriptFeatureIndices_script_loop.simps)
      (auto simp add: GetUint16_def GetOffset16_def GetTag_def Let_def IH
        lang_sys_loop_returns feature_loop_returns
        elim!: obind_FailsE split: if_splits option.splits)
qed

lemma ReadScriptFeatureIndices_returns:
  "ReadScriptFeatureIndices gsub script_list_offset required_script_tag required_lang_sys_tag
     \<noteq> Fails e"
  by (simp add: ReadScriptFeatureIndices_def GetUint16_def script_loop_returns)

subsection \<open>The reads of LoadGSUBTable\<close>

text \<open>
  Claim C1: every read of the parser is below the length of the buffer, and a failing check
  gives the empty map. The two helpers keep to this (see above). \<open>LoadGSUBTable\<close> itself
  does not: in a table of 10 bytes whose \<open>lookupListOffset\<close> is \<open>0xFFFF\<close>, line 301 reads
  \<open>lookup_count\<close> at the offsets 65535 and 65536 before line 303 compares the offset with the
  size.
\<close>

theorem LoadGSUBTable_reads_lookup_count_unchecked:
  "LoadGSUBTable (Some [0, 1, 0, 0, 0, 10, 0, 10, 0xFF, 0xFF]) kOpenTypeFeatureHalfWidth
     kOpenTypeScriptHiraganaKatakana kOpenTypeLangSysJapanese = Fails OutOfBoundsRead"
  by (simp add: LoadGSUBTable_def ReadScriptFeatureIndices_def reader_defs gsub_loop_simps)

subsection \<open>Coverage format 2\<close>

lemma expand_range_Some_end:
  assumes "ReadCoverageTable_expand_range g e cov = Some r"
  shows "e \<noteq> - 1"
  by (rule ReadCoverageTable_expand_range.raw_induct [where P = "\<lambda>g e cov r. e \<noteq> - 1", OF _ assms])
    (auto split: if_splits)

lemma expand_range_0xFFFF:
  "ReadCoverageTable_expand_range glyph_id 0xFFFF coverage = None"
proof (cases "ReadCoverageTable_expand_range glyph_id 0xFFFF coverage")
  case None
  then show ?thesis .
next
  case (Some r)
  from expand_range_Some_end [OF this] show ?thesis by simp
qed

text \<open>
  The loop leaves for every other end of the range, with the glyphs from \<open>glyph_id\<close> to
  \<open>end_glyph_id\<close> appended in order.
\<close>

lemma expand_range_terminates:
  fixes g e :: "16 word"
  assumes "e \<noteq> 0xFFFF" and "unat g \<le> Suc (unat e)"
  shows "ReadCoverageTable_expand_range g e cov =
           Some (cov @ map word_of_nat [unat g ..< Suc (unat e)])"
  using assms(2)
proof (induction "Suc (unat e) - unat g" arbitrary: g cov)
  case 0
  then have eq: "unat g = Suc (unat e)"
    by simp
  then have "\<not> g \<le> e"
    by (simp add: word_le_nat_alt)
  with eq show ?case
    by (subst ReadCoverageTable_expand_range.simps) simp
next
  case (Suc n)
  then have le: "unat g \<le> unat e"
    by simp
  from assms(1) have "unat e \<noteq> unat (0xFFFF :: 16 word)"
    by (metis word_unat_eq_iff)
  moreover have "unat e < 2 ^ 16"
    using unsigned_less [of e, where 'a = nat] by simp
  ultimately have e: "unat e < 65535"
    by simp
  have g1: "unat (g + 1) = Suc (unat g)"
    using le e by (simp add: unat_word_ariths)
  have step: "ReadCoverageTable_expand_range (g + 1) e (cov @ [g]) =
          Some ((cov @ [g]) @ map word_of_nat [unat (g + 1) ..< Suc (unat e)])"
    by (rule Suc.hyps(1)) (use g1 le Suc.hyps(2) in simp_all)
  have cons: "[unat g ..< Suc (unat e)] = unat g # [Suc (unat g) ..< Suc (unat e)]"
    using le by (simp add: upt_conv_Cons del: upt_Suc)
  from le have "g \<le> e"
    by (simp add: word_le_nat_alt)
  then show ?case
    by (subst ReadCoverageTable_expand_range.simps) (simp add: step g1 cons del: upt_Suc)
qed

lemma expand_range_None_iff:
  "ReadCoverageTable_expand_range start_glyph_id end_glyph_id coverage = None \<longleftrightarrow>
     start_glyph_id \<le> end_glyph_id \<and> end_glyph_id = 0xFFFF"
proof (cases "end_glyph_id = 0xFFFF")
  case True
  have m: "(- 1 :: 16 word) = 0xFFFF"
    by simp
  have "start_glyph_id \<le> 0xFFFF"
    by (metis word_n1_ge m)
  with True show ?thesis
    by (simp only: expand_range_0xFFFF simp_thms)
next
  case False
  show ?thesis
  proof (cases "start_glyph_id \<le> end_glyph_id")
    case True
    then have "unat start_glyph_id \<le> Suc (unat end_glyph_id)"
      by (simp add: word_le_nat_alt)
    from expand_range_terminates [OF False this, of coverage] False show ?thesis
      by simp
  next
    case False
    then show ?thesis
      by (subst ReadCoverageTable_expand_range.simps) simp
  qed
qed

text \<open>
  Claim C9: a coverage table of format 2 is parsed to its ranges, expanded in order, exactly
  when every record has \<open>startGlyphID \<le> endGlyphID\<close> and the running
  \<open>startCoverageIndex\<close>. The table below has the single valid record \<open>0xFFFF..0xFFFF\<close> with
  index 0, so the claim asks for the coverage \<open>[0xFFFF]\<close>; the loop of lines 169--171 counts
  in a \<open>uint16_t\<close>, for which \<open>glyph_id <= 0xFFFF\<close> always holds, and never leaves.
\<close>

theorem ReadCoverageTable_range_end_0xFFFF:
  "ReadCoverageTable [0, 2, 0, 1, 0xFF, 0xFF, 0xFF, 0xFF, 0, 0] 0 = Fails NonTermination"
  by (simp add: ReadCoverageTable_def reader_defs gsub_loop_simps expand_range_0xFFFF)

section \<open>SetFontFamily\<close>

lemma SetFontFamily_subst_maps:
  "m_main_half_width_subst_map (snd (SetFontFamily st font_family)) = m_main_half_width_subst_map st"
  "m_fallback_half_width_subst_map (snd (SetFontFamily st font_family)) =
     m_fallback_half_width_subst_map st"
  by (simp_all add: SetFontFamily_def Let_def)

lemma LoadFontFace_B:
  "LoadFontFace sample_env ((fresh_renderer [''B''])\<lparr>m_main_half_width_subst_map := Some [(7, 9)]\<rparr>)
     False None None [] =
   Returns (Inr (2, 0), (fresh_renderer [''B''])\<lparr>m_main_half_width_subst_map := Some [(7, 9)]\<rparr>,
            [Call_GetFontFace ''B'' None, Call_New_Face ''b.ttf'' 0])"
  by (simp add: LoadFontFace_def LoadFontFace_open_def LoadFontFace_provider_loop.simps)

text \<open>
  Claim C2: \<open>SetFontFamily\<close> with a non-empty list that differs from the stored one drops
  both faces with all their cached data, the half-width maps among them, so that the next
  half-width draw computes the map of the new face. Here the renderer holds a face of the
  family \<open>X\<close> and the map \<open>7 \<mapsto> 9\<close> computed for it. After the change to the family \<open>B\<close> the
  faces, the buffers and the index are reset and the map is still there; the next draw of
  U+0041 at half width loads the face of \<open>B\<close>, whose own table substitutes the glyphs 10 and
  20 only (\<open>LoadGSUBTable_sample\<close>), and replaces its glyph 7 by 9 at full width.
\<close>

theorem SetFontFamily_keeps_half_width_map:
  "SetFontFamily
     ((fresh_renderer [''X''])\<lparr>m_main_face := Some 3, m_main_half_width_subst_map := Some [(7, 9)]\<rparr>)
     [''B''] =
   (True, (fresh_renderer [''B''])\<lparr>m_main_half_width_subst_map := Some [(7, 9)]\<rparr>)
   \<and>
   DrawChar sample_env ((fresh_renderer [''B''])\<lparr>m_main_half_width_subst_map := Some [(7, 9)]\<rparr>)
     [] 0 0 0x41 {} 1 2 0 16 32 None kAuto [] =
   Returns (kOK,
     (fresh_renderer [''B''])\<lparr>m_main_face := Some 2, m_main_half_width_subst_map := Some [(7, 9)]\<rparr>,
     [1100],
     [Call_GetFontFace ''B'' None, Call_New_Face ''b.ttf'' 0, Call_Set_Pixel_Sizes 2 32 32,
      Call_Load_Glyph 2 9, Call_Get_Glyph 2, Call_Glyph_To_Bitmap 100])"
proof
  show "SetFontFamily
     ((fresh_renderer [''X''])\<lparr>m_main_face := Some 3, m_main_half_width_subst_map := Some [(7, 9)]\<rparr>)
     [''B''] =
   (True, (fresh_renderer [''B''])\<lparr>m_main_half_width_subst_map := Some [(7, 9)]\<rparr>)"
    by (simp add: SetFontFamily_def fresh_renderer_def)
  show "DrawChar sample_env ((fresh_renderer [''B''])\<lparr>m_main_half_width_subst_map := Some [(7, 9)]\<rparr>)
     [] 0 0 0x41 {} 1 2 0 16 32 None kAuto [] =
   Returns (kOK,
     (fresh_renderer [''B''])\<lparr>m_main_face := Some 2, m_main_half_width_subst_map := Some [(7, 9)]\<rparr>,
     [1100],
     [Call_GetFontFace ''B'' None, Call_New_Face ''b.ttf'' 0, Call_Set_Pixel_Sizes 2 32 32,
      Call_Load_Glyph 2 9, Call_Get_Glyph 2, Call_Glyph_To_Bitmap 100])"
    by (simp add: DrawChar_def DrawChar_is_space_def DrawChar_main_face_def LoadFontFace_B
        DrawChar_glyph_index_def DrawChar_half_width_def DrawChar_subst_map_def int_div_def
        DrawChar_outline_def DrawChar_stroke_def DrawChar_paint_def to_FT_UInt_def)
qed

section \<open>DrawChar\<close>

subsection \<open>White space\<close>

lemma DrawChar_is_space_iff:
  "DrawChar_is_space ucs4 \<longleftrightarrow>
     ucs4 \<in> {0x0009, 0x0020, 0x00A0, 0x1680, 0x202F, 0x205F, 0x3000} \<union> {0x2000..0x200A}"
  by (auto simp add: DrawChar_is_space_def)

lemma DrawChar_space:
  assumes "NDEBUG E \<or> 0 < char_height" and "DrawChar_is_space ucs4"
  shows "DrawChar E st target_bmp target_x target_y ucs4 style color stroke_color stroke_width
           char_width char_height underline_info fallback_policy calls =
         Returns (kOK, st, target_bmp, calls)"
  using assms by (auto simp add: DrawChar_def)

text \<open>
  Claim C8: for every code point of the white space set and all other arguments,
  \<open>DrawChar\<close> returns \<open>kOK\<close> and the target bitmap is as it was. The arguments are those
  that pass the \<open>assert\<close> of line 447: \<open>char_height\<close> is positive, or \<open>assert\<close> is compiled
  out.
\<close>

theorem DrawChar_whitespace_ok:
  assumes "NDEBUG E \<or> 0 < char_height"
    and "ucs4 \<in> {0x0009, 0x0020, 0x00A0, 0x1680, 0x202F, 0x205F, 0x3000} \<union> {0x2000..0x200A}"
  shows "\<exists>st' calls'.
           DrawChar E st target_bmp target_x target_y ucs4 style color stroke_color stroke_width
             char_width char_height underline_info fallback_policy calls =
           Returns (kOK, st', target_bmp, calls')"
  using assms DrawChar_space [of E char_height ucs4] by (simp add: DrawChar_is_space_iff)

theorem DrawChar_whitespace_ok_witness:
  "(NDEBUG sample_env \<or> (0 :: int) < 32) \<and>
   (0x3000 :: 32 word) \<in> {0x0009, 0x0020, 0x00A0, 0x1680, 0x202F, 0x205F, 0x3000} \<union> {0x2000..0x200A} \<and>
   (\<exists>st' calls'.
      DrawChar sample_env loaded_renderer [7] 3 4 0x3000 {kCharStyleStroke, kCharStyleUnderline}
        1 2 1 16 32 (Some \<lparr>start_x = 10, width = 40\<rparr>) kAuto [] =
      Returns (kOK, st', [7], calls'))"
proof -
  have h1: "NDEBUG sample_env \<or> (0 :: int) < 32"
    by simp
  have h2: "(0x3000 :: 32 word) \<in> {0x0009, 0x0020, 0x00A0, 0x1680, 0x202F, 0x205F, 0x3000} \<union> {0x2000..0x200A}"
    by simp
  from DrawChar_whitespace_ok [OF h1 h2] h1 h2 show ?thesis
    by blast
qed

text \<open>
  Claim C10: for a code point of the white space set \<open>DrawChar\<close> returns before any face is
  resolved: the renderer is as it was and no call has been made, to the font provider or to
  open a face, also when the renderer has never loaded a face.
\<close>

theorem DrawChar_whitespace_no_face_resolution:
  assumes "NDEBUG E \<or> 0 < char_height"
    and "ucs4 \<in> {0x0009, 0x0020, 0x00A0, 0x1680, 0x202F, 0x205F, 0x3000} \<union> {0x2000..0x200A}"
  shows "\<exists>status bmp'.
           DrawChar E st target_bmp target_x target_y ucs4 style color stroke_color stroke_width
             char_width char_height underline_info fallback_policy calls =
           Returns (status, st, bmp', calls)"
  using assms DrawChar_space [of E char_height ucs4] by (simp add: DrawChar_is_space_iff)

theorem DrawChar_whitespace_no_face_resolution_witness:
  "(NDEBUG sample_env \<or> (0 :: int) < 32) \<and>
   (0x2003 :: 32 word) \<in> {0x0009, 0x0020, 0x00A0, 0x1680, 0x202F, 0x205F, 0x3000} \<union> {0x2000..0x200A} \<and>
   (\<exists>status bmp'.
      DrawChar sample_env (fresh_renderer [''A'', ''B'']) [7] 3 4 0x2003 {} 1 2 0 32 32 None kAuto [] =
      Returns (status, fresh_renderer [''A'', ''B''], bmp', []))"
proof -
  have h1: "NDEBUG sample_env \<or> (0 :: int) < 32"
    by simp
  have h2: "(0x2003 :: 32 word) \<in> {0x0009, 0x0020, 0x00A0, 0x1680, 0x202F, 0x205F, 0x3000} \<union> {0x2000..0x200A}"
    by simp
  from DrawChar_whitespace_no_face_resolution [OF h1 h2] h1 h2 show ?thesis
    by blast
qed

subsection \<open>A draw that fails\<close>

lemma DrawChar_main_face_loaded:
  "DrawChar_main_face E loaded_renderer calls = Returns (Inr 2, loaded_renderer, calls)"
  by (simp add: DrawChar_main_face_def loaded_renderer_def fresh_renderer_def)

lemma DrawChar_glyph_index_A:
  "FT_Get_Char_Index E = FT_Get_Char_Index sample_env \<Longrightarrow>
   DrawChar_glyph_index E loaded_renderer 2 0x41 kAuto calls =
     Returns (Inr (MainFace, 2, 7), loaded_renderer, calls)"
  by (simp add: DrawChar_glyph_index_def)

lemma DrawChar_half_width_32:
  "DrawChar_half_width E st slot face glyph_index 32 32 = Returns (st, glyph_index, 32)"
  by (simp add: DrawChar_half_width_def int_div_def)

text \<open>The same draw with the sample font, once as it is and once when \<open>FT_Load_Glyph\<close> fails.\<close>

lemma DrawChar_sample_A:
  "DrawChar sample_env loaded_renderer [7] 0 0 0x41 {kCharStyleUnderline} 1 2 0 32 32
     (Some \<lparr>start_x = 10, width = 40\<rparr>) kAuto [] =
   Returns (kOK, loaded_renderer, [7, 0, 1100],
     [Call_Set_Pixel_Sizes 2 32 32, Call_Load_Glyph 2 7, Call_Get_Glyph 2, Call_Glyph_To_Bitmap 100])"
  by (simp add: DrawChar_def DrawChar_is_space_def DrawChar_main_face_loaded DrawChar_glyph_index_A
      DrawChar_half_width_32 DrawChar_outline_def DrawChar_stroke_def DrawChar_paint_def
      to_FT_UInt_def int_div_def int_rem_def)

lemma DrawChar_load_glyph_fails:
  "DrawChar (sample_env\<lparr>FT_Load_Glyph := \<lambda>calls face glyph_index. True\<rparr>) loaded_renderer [7]
     0 0 0x41 {kCharStyleUnderline} 1 2 0 32 32 (Some \<lparr>start_x = 10, width = 40\<rparr>) kAuto [] =
   Returns (kOtherError, loaded_renderer, [7], [Call_Set_Pixel_Sizes 2 32 32, Call_Load_Glyph 2 7])"
  by (simp add: DrawChar_def DrawChar_is_space_def DrawChar_main_face_loaded DrawChar_glyph_index_A
      DrawChar_half_width_32 DrawChar_outline_def to_FT_UInt_def)

text \<open>
  Claim C3: when \<open>DrawChar\<close> returns a status other than \<open>kOK\<close>, the target bitmap is as it
  was before the call: nothing is drawn before every step that can fail has succeeded.
\<close>

theorem DrawChar_error_keeps_bitmap:
  assumes "DrawChar E st target_bmp target_x target_y ucs4 style color stroke_color stroke_width
             char_width char_height underline_info fallback_policy calls =
           Returns (status, st', bmp', calls')"
    and "status \<noteq> kOK"
  shows "bmp' = target_bmp"
  using assms
  by (auto simp add: DrawChar_def elim!: obind_ReturnsE split: if_splits prod.splits sum.splits)

theorem DrawChar_error_keeps_bitmap_witness:
  "DrawChar (sample_env\<lparr>FT_Load_Glyph := \<lambda>calls face glyph_index. True\<rparr>) loaded_renderer [7]
     0 0 0x41 {kCharStyleUnderline} 1 2 0 32 32 (Some \<lparr>start_x = 10, width = 40\<rparr>) kAuto [] =
   Returns (kOtherError, loaded_renderer, [7], [Call_Set_Pixel_Sizes 2 32 32, Call_Load_Glyph 2 7])
   \<and> kOtherError \<noteq> kOK \<and> [7 :: nat] = [7]"
proof -
  have h2: "kOtherError \<noteq> kOK"
    by simp
  from DrawChar_error_keeps_bitmap [OF DrawChar_load_glyph_fails h2] DrawChar_load_glyph_fails h2
  show ?thesis
    by simp
qed

subsection \<open>The stages of a draw\<close>

lemma DrawChar_stages:
  assumes "NDEBUG E \<or> 0 < char_height" and "\<not> DrawChar_is_space ucs4"
    and "DrawChar_main_face E st calls = Returns (Inr main, st1, calls1)"
    and "DrawChar_glyph_index E st1 main ucs4 fallback_policy calls1 =
           Returns (Inr (slot, face, glyph_index), st2, calls2)"
    and "DrawChar_half_width E st2 slot face glyph_index char_width char_height =
           Returns (st3, glyph_index', char_width')"
  shows "DrawChar E st target_bmp target_x target_y ucs4 style color stroke_color stroke_width
           char_width char_height underline_info fallback_policy calls =
         (case DrawChar_outline E face glyph_index' style
                 (if stroke_width < 0 then 0 else stroke_width) char_width' char_height calls2 of
            (Inl status, calls3) \<Rightarrow> Returns (status, st3, target_bmp, calls3)
          | (Inr (glyph_image, border_glyph_image), calls3) \<Rightarrow>
              Returns (kOK, st3,
                DrawChar_paint E face target_bmp target_x target_y style color stroke_color
                  char_width' char_height underline_info glyph_image border_glyph_image,
                calls3))"
  using assms by (auto simp add: DrawChar_def)

lemma DrawChar_outline_status:
  "DrawChar_outline E face glyph_index style stroke_width char_width char_height calls =
     (Inl status, calls') \<Longrightarrow> status = kOtherError"
  by (auto simp add: DrawChar_outline_def DrawChar_stroke_def Let_def
      split: if_splits option.splits prod.splits sum.splits)

lemma DrawChar_outline_calls:
  "\<exists>rest. snd (DrawChar_outline E face glyph_index style stroke_width char_width char_height calls) =
     calls @ Call_Set_Pixel_Sizes face (to_FT_UInt char_width) (to_FT_UInt char_height) # rest
     \<and> (rest = [] \<or> (\<exists>rest'. rest = Call_Load_Glyph face glyph_index # rest'))"
  by (auto simp add: DrawChar_outline_def DrawChar_stroke_def Let_def
      split: if_splits option.splits prod.splits sum.splits)

lemma DrawChar_glyph_index_fallback:
  "DrawChar_glyph_index E st main ucs4 fallback_policy calls =
     Returns (Inr (FallbackFace, face, glyph_index), st', calls') \<Longrightarrow> m_fallback_face st' \<noteq> None"
  by (auto simp add: DrawChar_glyph_index_def
      elim!: obind_ReturnsE split: if_splits option.splits prod.splits sum.splits)

lemma DrawChar_half_width_computed:
  assumes "char_width = int_div char_height 2"
    and "slot = FallbackFace \<longrightarrow> m_fallback_face st \<noteq> None"
    and "DrawChar_half_width E st slot face glyph_index char_width char_height =
           Returns (st', glyph_index', char_width')"
  shows "DrawChar_subst_map st' slot \<noteq> None"
  using assms
  by (cases slot)
    (auto simp add: DrawChar_half_width_def DrawChar_subst_map_def
      elim!: obind_ReturnsE split: if_splits option.splits)

lemma DrawChar_half_width_subst:
  assumes "char_width = int_div char_height 2"
    and "DrawChar_half_width E st slot face glyph_index char_width char_height =
           Returns (st', glyph_index', char_width')"
    and "DrawChar_subst_map st' slot = Some subst_map"
  shows "(map_of subst_map glyph_index = Some subst \<longrightarrow>
            glyph_index' = subst \<and> char_width' = char_height) \<and>
         (map_of subst_map glyph_index = None \<longrightarrow>
            glyph_index' = glyph_index \<and> char_width' = char_width)"
  using assms
  by (cases slot)
    (auto simp add: DrawChar_half_width_def DrawChar_subst_map_def
      elim!: obind_ReturnsE split: if_splits option.splits)

subsection \<open>Half-width substitution\<close>

lemma DrawChar_glyph_index_sample:
  "FT_Get_Char_Index E = FT_Get_Char_Index sample_env \<Longrightarrow>
   DrawChar_glyph_index E loaded_renderer 2 0x30A2 kAuto calls =
     Returns (Inr (MainFace, 2, 10), loaded_renderer, calls)"
  by (simp add: DrawChar_glyph_index_def)

lemma DrawChar_half_width_sample:
  "FT_Load_Sfnt_Table E = FT_Load_Sfnt_Table sample_env \<Longrightarrow>
   DrawChar_half_width E loaded_renderer MainFace 2 glyph_index 16 32 =
     Returns (loaded_renderer\<lparr>m_main_half_width_subst_map := Some [(10, 15), (20, 25)]\<rparr>,
              (case map_of [(10, 15), (20, 25)] glyph_index of Some subst \<Rightarrow> subst | None \<Rightarrow> glyph_index),
              (case map_of [(10 :: nat, 15 :: nat), (20, 25)] glyph_index of Some subst \<Rightarrow> 32 | None \<Rightarrow> 16))"
  by (simp add: DrawChar_half_width_def int_div_def loaded_renderer_def fresh_renderer_def
      LoadGSUBTable_sample DrawChar_subst_map_def split: option.splits)

text \<open>
  Claim C7: in a draw with \<open>char_width = char_height / 2\<close> the map of the selected slot is
  computed; if it contains the resolved glyph index, the glyph index is replaced by the
  mapped one and \<open>char_width\<close> becomes \<open>char_height\<close> before \<open>FT_Set_Pixel_Sizes\<close> is
  called, so that the sizes set are \<open>(char_height, char_height)\<close>; if it does not, the glyph
  index and \<open>char_width\<close> are passed on as they are. The first call after the face is
  resolved is \<open>FT_Set_Pixel_Sizes\<close> with these sizes, and the glyph loaded after it is the
  glyph index so obtained.
\<close>

theorem DrawChar_half_width_promotion:
  assumes "NDEBUG E \<or> 0 < char_height" and "\<not> DrawChar_is_space ucs4"
    and "char_width = int_div char_height 2"
    and "DrawChar_main_face E st calls = Returns (Inr main, st1, calls1)"
    and "DrawChar_glyph_index E st1 main ucs4 fallback_policy calls1 =
           Returns (Inr (slot, face, glyph_index), st2, calls2)"
    and "DrawChar_half_width E st2 slot face glyph_index char_width char_height =
           Returns (st3, glyph_index', char_width')"
  shows "(\<exists>subst_map. DrawChar_subst_map st3 slot = Some subst_map) \<and>
         (\<forall>subst_map subst.
            DrawChar_subst_map st3 slot = Some subst_map \<longrightarrow>
              (map_of subst_map glyph_index = Some subst \<longrightarrow>
                 glyph_index' = subst \<and> char_width' = char_height) \<and>
              (map_of subst_map glyph_index = None \<longrightarrow>
                 glyph_index' = glyph_index \<and> char_width' = char_width)) \<and>
         (\<exists>status bmp rest.
            DrawChar E st target_bmp target_x target_y ucs4 style color stroke_color stroke_width
              char_width char_height underline_info fallback_policy calls =
            Returns (status, st3, bmp,
              calls2 @ Call_Set_Pixel_Sizes face (to_FT_UInt char_width') (to_FT_UInt char_height) # rest)
            \<and> (rest = [] \<or> (\<exists>rest'. rest = Call_Load_Glyph face glyph_index' # rest')))"
proof (intro conjI allI impI)
  have fb: "slot = FallbackFace \<longrightarrow> m_fallback_face st2 \<noteq> None"
    using assms(5) by (auto dest: DrawChar_glyph_index_fallback)
  from DrawChar_half_width_computed [OF assms(3) fb assms(6)]
  show "\<exists>subst_map. DrawChar_subst_map st3 slot = Some subst_map"
    by simp
next
  fix subst_map subst
  assume m: "DrawChar_subst_map st3 slot = Some subst_map"
  {
    assume "map_of subst_map glyph_index = Some subst"
    with DrawChar_half_width_subst [OF assms(3) assms(6) m, of subst]
    show "glyph_index' = subst" and "char_width' = char_height"
      by simp_all
  }
  {
    assume "map_of subst_map glyph_index = None"
    with DrawChar_half_width_subst [OF assms(3) assms(6) m, of subst]
    show "glyph_index' = glyph_index" and "char_width' = char_width"
      by simp_all
  }
next
  let ?sw = "if stroke_width < 0 then 0 else stroke_width"
  obtain r calls3 where o: "DrawChar_outline E face glyph_index' style ?sw char_width' char_height calls2 = (r, calls3)"
    by (cases "DrawChar_outline E face glyph_index' style ?sw char_width' char_height calls2")
  from DrawChar_outline_calls [of E face glyph_index' style ?sw char_width' char_height calls2] o
  obtain rest where rest: "calls3 = calls2 @ Call_Set_Pixel_Sizes face (to_FT_UInt char_width') (to_FT_UInt char_height) # rest"
    and rest': "rest = [] \<or> (\<exists>rest'. rest = Call_Load_Glyph face glyph_index' # rest')"
    by auto
  have "\<exists>status bmp. DrawChar E st target_bmp target_x target_y ucs4 style color stroke_color stroke_width
              char_width char_height underline_info fallback_policy calls =
            Returns (status, st3, bmp, calls3)"
    by (cases r) (auto simp add: DrawChar_stages [OF assms(1,2,4,5,6)] o)
  with rest rest' show "\<exists>status bmp rest.
            DrawChar E st target_bmp target_x target_y ucs4 style color stroke_color stroke_width
              char_width char_height underline_info fallback_policy calls =
            Returns (status, st3, bmp,
              calls2 @ Call_Set_Pixel_Sizes face (to_FT_UInt char_width') (to_FT_UInt char_height) # rest)
            \<and> (rest = [] \<or> (\<exists>rest'. rest = Call_Load_Glyph face glyph_index' # rest'))"
    by blast
qed

theorem DrawChar_half_width_promotion_witness:
  "(NDEBUG sample_env \<or> (0 :: int) < 32) \<and> \<not> DrawChar_is_space 0x30A2 \<and> (16 :: int) = int_div 32 2 \<and>
   DrawChar_main_face sample_env loaded_renderer [] = Returns (Inr 2, loaded_renderer, []) \<and>
   DrawChar_glyph_index sample_env loaded_renderer 2 0x30A2 kAuto [] =
     Returns (Inr (MainFace, 2, 10), loaded_renderer, []) \<and>
   DrawChar_half_width sample_env loaded_renderer MainFace 2 10 16 32 =
     Returns (loaded_renderer\<lparr>m_main_half_width_subst_map := Some [(10, 15), (20, 25)]\<rparr>, 15, 32) \<and>
   DrawChar_subst_map (loaded_renderer\<lparr>m_main_half_width_subst_map := Some [(10, 15), (20, 25)]\<rparr>)
     MainFace = Some [(10, 15), (20, 25)] \<and>
   map_of [(10 :: nat, 15 :: nat), (20, 25)] 10 = Some 15 \<and>
   (\<exists>status bmp rest.
      DrawChar sample_env loaded_renderer [7] 0 0 0x30A2 {} 1 2 0 16 32 None kAuto [] =
        Returns (status, loaded_renderer\<lparr>m_main_half_width_subst_map := Some [(10, 15), (20, 25)]\<rparr>,
                 bmp, Call_Set_Pixel_Sizes 2 32 32 # rest)
      \<and> (rest = [] \<or> (\<exists>rest'. rest = Call_Load_Glyph 2 15 # rest')))"
proof -
  have h1: "NDEBUG sample_env \<or> (0 :: int) < 32"
    by simp
  have h2: "\<not> DrawChar_is_space 0x30A2"
    by (simp add: DrawChar_is_space_def)
  have h3: "(16 :: int) = int_div 32 2"
    by (simp add: int_div_def)
  have h4: "DrawChar_main_face sample_env loaded_renderer [] = Returns (Inr 2, loaded_renderer, [])"
    by (rule DrawChar_main_face_loaded)
  have h5: "DrawChar_glyph_index sample_env loaded_renderer 2 0x30A2 kAuto [] =
              Returns (Inr (MainFace, 2, 10), loaded_renderer, [])"
    by (simp add: DrawChar_glyph_index_sample)
  have h6: "DrawChar_half_width sample_env loaded_renderer MainFace 2 10 16 32 =
     Returns (loaded_renderer\<lparr>m_main_half_width_subst_map := Some [(10, 15), (20, 25)]\<rparr>, 15, 32)"
    by (simp add: DrawChar_half_width_sample)
  have m: "DrawChar_subst_map (loaded_renderer\<lparr>m_main_half_width_subst_map := Some [(10, 15), (20, 25)]\<rparr>)
     MainFace = Some [(10, 15), (20, 25)]"
    by (simp add: DrawChar_subst_map_def)
  have f: "to_FT_UInt 32 = 32"
    by (simp add: to_FT_UInt_def)
  from DrawChar_half_width_promotion [OF h1 h2 h3 h4 h5 h6, of "[7]" 0 0 "{}" 1 2 0 None]
  have "\<exists>status bmp rest.
      DrawChar sample_env loaded_renderer [7] 0 0 0x30A2 {} 1 2 0 16 32 None kAuto [] =
        Returns (status, loaded_renderer\<lparr>m_main_half_width_subst_map := Some [(10, 15), (20, 25)]\<rparr>,
                 bmp, Call_Set_Pixel_Sizes 2 32 32 # rest)
      \<and> (rest = [] \<or> (\<exists>rest'. rest = Call_Load_Glyph 2 15 # rest'))"
    by (simp add: f)
  with h1 h2 h3 h4 h5 h6 m show ?thesis
    by simp
qed

section \<open>LoadFontFace\<close>

subsection \<open>The walk over the family list\<close>

lemma provider_queries_Suc:
  "b \<le> i \<Longrightarrow> provider_queries font_family codepoint b (Suc i) =
     provider_queries font_family codepoint b i @ [Call_GetFontFace (font_family ! i) codepoint]"
  by (simp add: provider_queries_def)

lemma provider_queries_self [simp]: "provider_queries font_family codepoint b b = []"
  by (simp add: provider_queries_def)

lemma provider_loop_step:
  assumes "b \<le> i" and "isl (provider_answer E calls font_family codepoint b i)"
    and "Suc i < length font_family"
  shows "LoadFontFace_provider_loop E font_family codepoint i
           (provider_answer E calls font_family codepoint b i)
           (calls @ provider_queries font_family codepoint b (Suc i)) =
         LoadFontFace_provider_loop E font_family codepoint (Suc i)
           (provider_answer E calls font_family codepoint b (Suc i))
           (calls @ provider_queries font_family codepoint b (Suc (Suc i)))"
  using assms
  by (subst LoadFontFace_provider_loop.simps)
    (simp add: provider_answer_def provider_queries_Suc)

lemma provider_loop_success:
  assumes "b \<le> i" and "i \<le> k" and "k < length font_family"
    and "\<forall>j. i \<le> j \<and> j < k \<longrightarrow> isl (provider_answer E calls font_family codepoint b j)"
    and "provider_answer E calls font_family codepoint b k = Inr info"
  shows "LoadFontFace_provider_loop E font_family codepoint i
           (provider_answer E calls font_family codepoint b i)
           (calls @ provider_queries font_family codepoint b (Suc i)) =
         (Inr info, k, calls @ provider_queries font_family codepoint b (Suc k))"
  using assms
proof (induction "k - i" arbitrary: i)
  case 0
  then have "i = k" by simp
  with 0 show ?case
    by (subst LoadFontFace_provider_loop.simps) simp
next
  case (Suc d)
  then have lt: "i < k" by simp
  with Suc.prems have err: "isl (provider_answer E calls font_family codepoint b i)"
    by simp
  from lt Suc.prems have len: "Suc i < length font_family" by simp
  have "LoadFontFace_provider_loop E font_family codepoint (Suc i)
           (provider_answer E calls font_family codepoint b (Suc i))
           (calls @ provider_queries font_family codepoint b (Suc (Suc i))) =
         (Inr info, k, calls @ provider_queries font_family codepoint b (Suc k))"
  proof (rule Suc.hyps(1))
    show "d = k - Suc i" using Suc.hyps(2) by simp
    show "b \<le> Suc i" using Suc.prems by simp
    show "Suc i \<le> k" using lt by simp
    show "k < length font_family" using Suc.prems by simp
    show "\<forall>j. Suc i \<le> j \<and> j < k \<longrightarrow> isl (provider_answer E calls font_family codepoint b j)"
      using Suc.prems by simp
    show "provider_answer E calls font_family codepoint b k = Inr info"
      using Suc.prems by simp
  qed
  with provider_loop_step [OF Suc.prems(1) err len] show ?case
    by simp
qed



lemma LoadFontFace_walk_start:
  assumes "b = (case begin_index of Some b' \<Rightarrow> b' | None \<Rightarrow> 0)" and "b < length (m_font_family st)"
  shows "LoadFontFace E st is_fallback codepoint begin_index calls =
     (case LoadFontFace_provider_loop E (m_font_family st) codepoint b
             (provider_answer E calls (m_font_family st) codepoint b b)
             (calls @ provider_queries (m_font_family st) codepoint b (Suc b)) of
        (Inl error, font_index, calls1) \<Rightarrow> Returns (Inl error, st, calls1)
      | (Inr info, font_index, calls1) \<Rightarrow>
          let use_memory_data = (info_font_data info \<noteq> []);
              st1 = (if use_memory_data then
                       if \<not> is_fallback
                       then st\<lparr>m_main_face := None, m_main_face_data := info_font_data info\<rparr>
                       else st\<lparr>m_fallback_face := None, m_fallback_face_data := info_font_data info\<rparr>
                     else st)
          in
            (case LoadFontFace_open E use_memory_data (info_filename info) (info_font_data info)
                    (info_face_index info) calls1 of
               (None, calls2) \<Rightarrow> Returns (Inl FontProviderError_kFontNotFound, st1, calls2)
             | (Some face, calls2) \<Rightarrow>
                 if info_face_index info \<ge> 0 then Returns (Inr (face, font_index), st1, calls2)
                 else if info_family_name info = [] \<and> info_postscript_name info = []
                 then Returns (Inl FontProviderError_kOtherError, st1, calls2)
                 else
                   obind (LoadFontFace_find_face E info use_memory_data (info_font_data info)
                            font_index face 0 calls2) (\<lambda>(result, calls3).
                     Returns (result, st1, calls3))))"
  using assms
  by (cases begin_index) (simp_all add: LoadFontFace_def provider_queries_def provider_answer_def)



lemma LoadFontFace_first_success:
  assumes "b = (case begin_index of Some b' \<Rightarrow> b' | None \<Rightarrow> 0)"
    and "b \<le> k" and "k < length (m_font_family st)"
    and "\<forall>i. b \<le> i \<and> i < k \<longrightarrow> isl (provider_answer E calls (m_font_family st) codepoint b i)"
    and "provider_answer E calls (m_font_family st) codepoint b k = Inr info"
  shows "LoadFontFace E st is_fallback codepoint begin_index calls =
     (let use_memory_data = (info_font_data info \<noteq> []);
              st1 = (if use_memory_data then
                       if \<not> is_fallback
                       then st\<lparr>m_main_face := None, m_main_face_data := info_font_data info\<rparr>
                       else st\<lparr>m_fallback_face := None, m_fallback_face_data := info_font_data info\<rparr>
                     else st)
          in
            (case LoadFontFace_open E use_memory_data (info_filename info) (info_font_data info)
                    (info_face_index info)
                    (calls @ provider_queries (m_font_family st) codepoint b (Suc k)) of
               (None, calls2) \<Rightarrow> Returns (Inl FontProviderError_kFontNotFound, st1, calls2)
             | (Some face, calls2) \<Rightarrow>
                 if info_face_index info \<ge> 0 then Returns (Inr (face, k), st1, calls2)
                 else if info_family_name info = [] \<and> info_postscript_name info = []
                 then Returns (Inl FontProviderError_kOtherError, st1, calls2)
                 else
                   obind (LoadFontFace_find_face E info use_memory_data (info_font_data info)
                            k face 0 calls2) (\<lambda>(result, calls3).
                     Returns (result, st1, calls3))))"
proof -
  from assms(2,3) have bl: "b < length (m_font_family st)" by simp
  show ?thesis
    by (simp add: LoadFontFace_walk_start [OF assms(1) bl]
        provider_loop_success [OF le_refl assms(2,3,4,5)])
qed

lemma find_face_error:
  "LoadFontFace_find_face E info use_memory_data memory_data font_index face i calls =
     Returns (Inl error, calls') \<Longrightarrow> error = FontProviderError_kFontNotFound"
proof (induction E info use_memory_data memory_data font_index face i calls
    rule: LoadFontFace_find_face.induct)
  case (1 E info use_memory_data memory_data font_index face i calls)
  from "1.prems" show ?case
    apply (subst (asm) LoadFontFace_find_face.simps)
    apply (auto split: if_splits prod.splits option.splits elim!: obind_ReturnsE dest: "1.IH")
    done
qed

subsection \<open>The face the provider named\<close>

text \<open>
  The test of lines 761--766 in terms of the library: a face matches by its PostScript name
  or by one of its family names; with a PostScript name to compare and none in the face,
  the comparison reads through a null pointer.
\<close>

lemma LoadFontFace_names_match_True:
  "LoadFontFace_names_match E info face = Returns True \<longleftrightarrow>
     (info_postscript_name info \<noteq> [] \<and>
      FT_Get_Postscript_Name E face = Some (info_postscript_name info)) \<or>
     ((info_postscript_name info = [] \<or> FT_Get_Postscript_Name E face \<noteq> None) \<and>
      info_family_name info \<noteq> [] \<and> MatchFontFamilyName E face (info_family_name info))"
  by (auto simp add: LoadFontFace_names_match_def split: option.splits)

lemma LoadFontFace_names_match_Fails:
  "LoadFontFace_names_match E info face = Fails e \<longleftrightarrow>
     e = NullPointerRead \<and> info_postscript_name info \<noteq> [] \<and> FT_Get_Postscript_Name E face = None"
  by (auto simp add: LoadFontFace_names_match_def split: option.splits)

lemma LoadFontFace_open_info:
  "LoadFontFace_open E (info_font_data info \<noteq> []) (info_filename info) (info_font_data info) i calls =
     (face_opened E info calls i, calls @ [face_open_call info i])"
  by (simp add: LoadFontFace_open_def face_opened_def face_open_call_def)

lemma face_open_calls_Suc:
  "face_open_calls info (Suc j) = face_open_calls info j @ [face_open_call info (int j)]"
  by (simp add: face_open_calls_def)

lemma face_open_calls_0 [simp]: "face_open_calls info 0 = []"
  by (simp add: face_open_calls_def)

lemma find_face_step:
  "LoadFontFace_find_face E info (info_font_data info \<noteq> []) (info_font_data info) k face i calls =
     (if i < sint (num_faces E face) then
        (case face_opened E info calls i of
           None \<Rightarrow> Returns (Inl FontProviderError_kFontNotFound, calls @ [face_open_call info i])
         | Some face' \<Rightarrow>
             obind (LoadFontFace_names_match E info face') (\<lambda>found.
               if found then Returns (Inr (face', k), calls @ [face_open_call info i])
               else LoadFontFace_find_face E info (info_font_data info \<noteq> []) (info_font_data info) k
                      face' (i + 1) (calls @ [face_open_call info i])))
      else Returns (Inl FontProviderError_kFontNotFound, calls))"
  by (subst LoadFontFace_find_face.simps) (simp add: LoadFontFace_open_info)

lemma find_face_skip:
  assumes "i \<le> j"
    and "\<forall>n. i \<le> n \<and> n < j \<longrightarrow>
           int n < sint (num_faces E (faces n)) \<and>
           face_opened E info (calls @ face_open_calls info n) (int n) = Some (faces (Suc n)) \<and>
           LoadFontFace_names_match E info (faces (Suc n)) = Returns False"
  shows "LoadFontFace_find_face E info (info_font_data info \<noteq> []) (info_font_data info) k
           (faces i) (int i) (calls @ face_open_calls info i) =
         LoadFontFace_find_face E info (info_font_data info \<noteq> []) (info_font_data info) k
           (faces j) (int j) (calls @ face_open_calls info j)"
  using assms
proof (induction "j - i" arbitrary: i)
  case 0
  then show ?case by simp
next
  case (Suc d)
  then have lt: "i < j" by simp
  with Suc.prems have s: "int i < sint (num_faces E (faces i))"
      "face_opened E info (calls @ face_open_calls info i) (int i) = Some (faces (Suc i))"
      "LoadFontFace_names_match E info (faces (Suc i)) = Returns False"
    by simp_all
  have "LoadFontFace_find_face E info (info_font_data info \<noteq> []) (info_font_data info) k
           (faces (Suc i)) (int (Suc i)) (calls @ face_open_calls info (Suc i)) =
         LoadFontFace_find_face E info (info_font_data info \<noteq> []) (info_font_data info) k
           (faces j) (int j) (calls @ face_open_calls info j)"
  proof (rule Suc.hyps(1))
    show "d = j - Suc i" using Suc.hyps(2) by simp
    show "Suc i \<le> j" using lt by simp
    show "\<forall>n. Suc i \<le> n \<and> n < j \<longrightarrow>
           int n < sint (num_faces E (faces n)) \<and>
           face_opened E info (calls @ face_open_calls info n) (int n) = Some (faces (Suc n)) \<and>
           LoadFontFace_names_match E info (faces (Suc n)) = Returns False"
      using Suc.prems by simp
  qed
  moreover have "LoadFontFace_find_face E info (info_font_data info \<noteq> []) (info_font_data info) k
           (faces i) (int i) (calls @ face_open_calls info i) =
         LoadFontFace_find_face E info (info_font_data info \<noteq> []) (info_font_data info) k
           (faces (Suc i)) (int (Suc i)) (calls @ face_open_calls info (Suc i))"
    using s by (subst find_face_step) (simp add: face_open_calls_Suc add.commute)
  ultimately show ?case by simp
qed


lemma find_face_open_fails:
  assumes "\<forall>n. n < j \<longrightarrow>
           int n < sint (num_faces E (faces n)) \<and>
           face_opened E info (calls @ face_open_calls info n) (int n) = Some (faces (Suc n)) \<and>
           LoadFontFace_names_match E info (faces (Suc n)) = Returns False"
    and "int j < sint (num_faces E (faces j))"
    and "face_opened E info (calls @ face_open_calls info j) (int j) = None"
  shows "LoadFontFace_find_face E info (info_font_data info \<noteq> []) (info_font_data info) k
           (faces 0) 0 calls =
         Returns (Inl FontProviderError_kFontNotFound, calls @ face_open_calls info (Suc j))"
proof -
  have "LoadFontFace_find_face E info (info_font_data info \<noteq> []) (info_font_data info) k
           (faces 0) (int 0) (calls @ face_open_calls info 0) =
         LoadFontFace_find_face E info (info_font_data info \<noteq> []) (info_font_data info) k
           (faces j) (int j) (calls @ face_open_calls info j)"
    by (rule find_face_skip) (use assms(1) in simp_all)
  also have "\<dots> = Returns (Inl FontProviderError_kFontNotFound, calls @ face_open_calls info (Suc j))"
    using assms(2,3) by (subst find_face_step) (simp add: face_open_calls_Suc)
  finally show ?thesis by simp
qed

lemma find_face_no_match:
  assumes "\<forall>n. n < j \<longrightarrow>
           int n < sint (num_faces E (faces n)) \<and>
           face_opened E info (calls @ face_open_calls info n) (int n) = Some (faces (Suc n)) \<and>
           LoadFontFace_names_match E info (faces (Suc n)) = Returns False"
    and "\<not> int j < sint (num_faces E (faces j))"
  shows "LoadFontFace_find_face E info (info_font_data info \<noteq> []) (info_font_data info) k
           (faces 0) 0 calls =
         Returns (Inl FontProviderError_kFontNotFound, calls @ face_open_calls info j)"
proof -
  have "LoadFontFace_find_face E info (info_font_data info \<noteq> []) (info_font_data info) k
           (faces 0) (int 0) (calls @ face_open_calls info 0) =
         LoadFontFace_find_face E info (info_font_data info \<noteq> []) (info_font_data info) k
           (faces j) (int j) (calls @ face_open_calls info j)"
    by (rule find_face_skip) (use assms(1) in simp_all)
  also have "\<dots> = Returns (Inl FontProviderError_kFontNotFound, calls @ face_open_calls info j)"
    using assms(2) by (subst find_face_step) simp
  finally show ?thesis by simp
qed

lemma LoadFontFace_at_success:
  assumes "b = (case begin_index of Some b' \<Rightarrow> b' | None \<Rightarrow> 0)"
    and "b \<le> k" and "k < length (m_font_family st)"
    and "\<forall>i. b \<le> i \<and> i < k \<longrightarrow> isl (provider_answer E calls (m_font_family st) codepoint b i)"
    and "provider_answer E calls (m_font_family st) codepoint b k = Inr info"
    and "q = calls @ provider_queries (m_font_family st) codepoint b (Suc k)"
    and "st1 = (if info_font_data info = [] then st
                else if \<not> is_fallback
                then st\<lparr>m_main_face := None, m_main_face_data := info_font_data info\<rparr>
                else st\<lparr>m_fallback_face := None, m_fallback_face_data := info_font_data info\<rparr>)"
  shows "LoadFontFace E st is_fallback codepoint begin_index calls =
     (case face_opened E info q (info_face_index info) of
        None \<Rightarrow> Returns (Inl FontProviderError_kFontNotFound, st1,
                         q @ [face_open_call info (info_face_index info)])
      | Some face \<Rightarrow>
          if info_face_index info \<ge> 0
          then Returns (Inr (face, k), st1, q @ [face_open_call info (info_face_index info)])
          else if info_family_name info = [] \<and> info_postscript_name info = []
          then Returns (Inl FontProviderError_kOtherError, st1,
                        q @ [face_open_call info (info_face_index info)])
          else
            obind (LoadFontFace_find_face E info (info_font_data info \<noteq> []) (info_font_data info)
                     k face 0 (q @ [face_open_call info (info_face_index info)]))
              (\<lambda>(result, calls3). Returns (result, st1, calls3)))"
proof -
  have st1: "st1 = (if info_font_data info \<noteq> [] then
                       if \<not> is_fallback
                       then st\<lparr>m_main_face := None, m_main_face_data := info_font_data info\<rparr>
                       else st\<lparr>m_fallback_face := None, m_fallback_face_data := info_font_data info\<rparr>
                     else st)"
    using assms(7) by simp
  show ?thesis
    unfolding LoadFontFace_first_success [OF assms(1,2,3,4,5)] Let_def LoadFontFace_open_info
      st1 assms(6)
    by (cases "face_opened E info (calls @ provider_queries (m_font_family st) codepoint b (Suc k))
                 (info_face_index info)") simp_all
qed






section \<open>Failures of the outline library\<close>

lemma LoadFontFace_error_after_success:
  assumes "b = (case begin_index of Some b' \<Rightarrow> b' | None \<Rightarrow> 0)"
    and "b \<le> k" and "k < length (m_font_family st)"
    and "\<forall>i. b \<le> i \<and> i < k \<longrightarrow> isl (provider_answer E calls (m_font_family st) codepoint b i)"
    and "provider_answer E calls (m_font_family st) codepoint b k = Inr info"
    and "LoadFontFace E st is_fallback codepoint begin_index calls = Returns (Inl error, st', calls')"
  shows "error = FontProviderError_kFontNotFound \<or>
         (error = FontProviderError_kOtherError \<and> info_face_index info < 0 \<and>
          info_family_name info = [] \<and> info_postscript_name info = [])"
  using assms(6)
  by (auto simp add: LoadFontFace_first_success [OF assms(1,2,3,4,5)] Let_def
      elim!: obind_ReturnsE dest: find_face_error split: prod.splits option.splits if_splits)

lemma DrawChar_outline_failures:
  assumes "w = to_FT_UInt char_width" and "h = to_FT_UInt char_height"
    and "c1 = calls @ [Call_Set_Pixel_Sizes face w h]"
    and "c2 = c1 @ [Call_Load_Glyph face glyph_index]"
    and "c3 = c2 @ [Call_Get_Glyph face]"
    and "c4 = c3 @ [Call_Glyph_To_Bitmap outline]"
    and "c5 = c4 @ [Call_Get_Glyph face]"
    and "radius = \<lfloor>stroke_width * 64\<rfloor>"
    and "c6 = c5 @ [Call_Glyph_StrokeBorder stroke_glyph radius]"
    and "stroked = FT_Glyph_StrokeBorder E c5 stroke_glyph radius"
    and "c7 = c6 @ [Call_Glyph_To_Bitmap stroked]"
  shows "FT_Set_Pixel_Sizes E calls face w h \<Longrightarrow>
           DrawChar_outline E face glyph_index style sw char_width char_height calls =
             (Inl kOtherError, c1)"
    and "\<not> FT_Set_Pixel_Sizes E calls face w h \<Longrightarrow> FT_Load_Glyph E c1 face glyph_index \<Longrightarrow>
           DrawChar_outline E face glyph_index style sw char_width char_height calls =
             (Inl kOtherError, c2)"
    and "\<not> FT_Set_Pixel_Sizes E calls face w h \<Longrightarrow> \<not> FT_Load_Glyph E c1 face glyph_index \<Longrightarrow>
         FT_Get_Glyph E c2 face = None \<Longrightarrow>
           DrawChar_outline E face glyph_index style sw char_width char_height calls =
             (Inl kOtherError, c3)"
    and "\<not> FT_Set_Pixel_Sizes E calls face w h \<Longrightarrow> \<not> FT_Load_Glyph E c1 face glyph_index \<Longrightarrow>
         FT_Get_Glyph E c2 face = Some outline \<Longrightarrow> FT_Glyph_To_Bitmap E c3 outline = None \<Longrightarrow>
           DrawChar_outline E face glyph_index style sw char_width char_height calls =
             (Inl kOtherError, c4)"
    and "\<not> FT_Set_Pixel_Sizes E calls face w h \<Longrightarrow> \<not> FT_Load_Glyph E c1 face glyph_index \<Longrightarrow>
         FT_Get_Glyph E c2 face = Some outline \<Longrightarrow>
         FT_Glyph_To_Bitmap E c3 outline = Some glyph_image \<Longrightarrow>
         kCharStyleStroke \<in> style \<Longrightarrow> 0 < stroke_width \<Longrightarrow> FT_Get_Glyph E c4 face = None \<Longrightarrow>
           DrawChar_outline E face glyph_index style stroke_width char_width char_height calls =
             (Inl kOtherError, c5)"
    and "\<not> FT_Set_Pixel_Sizes E calls face w h \<Longrightarrow> \<not> FT_Load_Glyph E c1 face glyph_index \<Longrightarrow>
         FT_Get_Glyph E c2 face = Some outline \<Longrightarrow>
         FT_Glyph_To_Bitmap E c3 outline = Some glyph_image \<Longrightarrow>
         kCharStyleStroke \<in> style \<Longrightarrow> 0 < stroke_width \<Longrightarrow>
         FT_Get_Glyph E c4 face = Some stroke_glyph \<Longrightarrow> FT_Glyph_To_Bitmap E c6 stroked = None \<Longrightarrow>
           DrawChar_outline E face glyph_index style stroke_width char_width char_height calls =
             (Inl kOtherError, c7)"
  using assms by (simp_all add: DrawChar_outline_def DrawChar_stroke_def Let_def)

lemma DrawChar_main_face_error:
  assumes "NDEBUG E \<or> 0 < char_height" and "\<not> DrawChar_is_space ucs4"
    and "m_main_face st = None"
    and "LoadFontFace E st False None None calls = Returns (Inl error, st', calls')"
  shows "DrawChar E st target_bmp target_x target_y ucs4 style color stroke_color stroke_width
           char_width char_height underline_info fallback_policy calls =
         Returns (FontProviderErrorToStatus E error, st', target_bmp, calls')"
  using assms by (auto simp add: DrawChar_def DrawChar_main_face_def)

lemma DrawChar_fallback_face_error:
  assumes "NDEBUG E \<or> 0 < char_height" and "\<not> DrawChar_is_space ucs4"
    and "DrawChar_main_face E st calls = Returns (Inr main, st1, calls1)"
    and "FT_Get_Char_Index E main ucs4 = 0"
    and "fallback_policy \<noteq> kFailOnCodePointNotFound"
    and "case m_fallback_face st1 of Some fallback \<Rightarrow> FT_Get_Char_Index E fallback ucs4 = 0
         | None \<Rightarrow> True"
    and "m_main_face_index st1 + 1 < length (m_font_family st1)"
    and "LoadFontFace E st1 True (Some ucs4) (Some (m_main_face_index st1 + 1)) calls1 =
           Returns (Inl error, st', calls')"
  shows "DrawChar E st target_bmp target_x target_y ucs4 style color stroke_color stroke_width
           char_width char_height underline_info fallback_policy calls =
         Returns (FontProviderErrorToStatus E error, st', target_bmp, calls')"
  using assms
  by (auto simp add: DrawChar_def DrawChar_glyph_index_def split: option.splits)

lemma LoadFontFace_error_state:
  assumes "b = (case begin_index of Some b' \<Rightarrow> b' | None \<Rightarrow> 0)"
    and "b \<le> k" and "k < length (m_font_family st)"
    and "\<forall>i. b \<le> i \<and> i < k \<longrightarrow> isl (provider_answer E calls (m_font_family st) codepoint b i)"
    and "provider_answer E calls (m_font_family st) codepoint b k = Inr info"
    and "st1 = (if info_font_data info = [] then st
                else if \<not> is_fallback
                then st\<lparr>m_main_face := None, m_main_face_data := info_font_data info\<rparr>
                else st\<lparr>m_fallback_face := None, m_fallback_face_data := info_font_data info\<rparr>)"
    and "LoadFontFace E st is_fallback codepoint begin_index calls = Returns (Inl error, st', calls')"
  shows "st' = st1"
  using assms(7)
  by (auto simp add: LoadFontFace_at_success [OF assms(1,2,3,4,5) refl assms(6)]
      elim!: obind_ReturnsE split: prod.splits option.splits if_splits)

lemma sample_draw_stages:
  assumes "FT_Get_Char_Index E = FT_Get_Char_Index sample_env"
    and "FT_Glyph_StrokeBorder E = FT_Glyph_StrokeBorder sample_env"
  shows "(NDEBUG E \<or> (0 :: int) < 32) \<and> \<not> DrawChar_is_space 0x41 \<and>
     DrawChar_main_face E loaded_renderer [] = Returns (Inr 2, loaded_renderer, []) \<and>
     DrawChar_glyph_index E loaded_renderer 2 0x41 kAuto [] =
       Returns (Inr (MainFace, 2, 7), loaded_renderer, []) \<and>
     DrawChar_half_width E loaded_renderer MainFace 2 7 32 32 = Returns (loaded_renderer, 7, 32) \<and>
     32 = to_FT_UInt 32 \<and> 32 = to_FT_UInt 32 \<and>
     [Call_Set_Pixel_Sizes 2 32 32] = [] @ [Call_Set_Pixel_Sizes 2 32 32] \<and>
     [Call_Set_Pixel_Sizes 2 32 32, Call_Load_Glyph 2 7] =
       [Call_Set_Pixel_Sizes 2 32 32] @ [Call_Load_Glyph 2 7] \<and>
     [Call_Set_Pixel_Sizes 2 32 32, Call_Load_Glyph 2 7, Call_Get_Glyph 2] =
       [Call_Set_Pixel_Sizes 2 32 32, Call_Load_Glyph 2 7] @ [Call_Get_Glyph 2] \<and>
     [Call_Set_Pixel_Sizes 2 32 32, Call_Load_Glyph 2 7, Call_Get_Glyph 2, Call_Glyph_To_Bitmap 100] =
       [Call_Set_Pixel_Sizes 2 32 32, Call_Load_Glyph 2 7, Call_Get_Glyph 2] @
       [Call_Glyph_To_Bitmap 100] \<and>
     [Call_Set_Pixel_Sizes 2 32 32, Call_Load_Glyph 2 7, Call_Get_Glyph 2, Call_Glyph_To_Bitmap 100,
      Call_Get_Glyph 2] =
       [Call_Set_Pixel_Sizes 2 32 32, Call_Load_Glyph 2 7, Call_Get_Glyph 2, Call_Glyph_To_Bitmap 100] @
       [Call_Get_Glyph 2] \<and>
     128 = \<lfloor>(2 :: real) * 64\<rfloor> \<and>
     [Call_Set_Pixel_Sizes 2 32 32, Call_Load_Glyph 2 7, Call_Get_Glyph 2, Call_Glyph_To_Bitmap 100,
      Call_Get_Glyph 2, Call_Glyph_StrokeBorder 100 128] =
       [Call_Set_Pixel_Sizes 2 32 32, Call_Load_Glyph 2 7, Call_Get_Glyph 2, Call_Glyph_To_Bitmap 100,
        Call_Get_Glyph 2] @ [Call_Glyph_StrokeBorder 100 128] \<and>
     101 = FT_Glyph_StrokeBorder E
             [Call_Set_Pixel_Sizes 2 32 32, Call_Load_Glyph 2 7, Call_Get_Glyph 2,
              Call_Glyph_To_Bitmap 100, Call_Get_Glyph 2] 100 128 \<and>
     [Call_Set_Pixel_Sizes 2 32 32, Call_Load_Glyph 2 7, Call_Get_Glyph 2, Call_Glyph_To_Bitmap 100,
      Call_Get_Glyph 2, Call_Glyph_StrokeBorder 100 128, Call_Glyph_To_Bitmap 101] =
       [Call_Set_Pixel_Sizes 2 32 32, Call_Load_Glyph 2 7, Call_Get_Glyph 2, Call_Glyph_To_Bitmap 100,
        Call_Get_Glyph 2, Call_Glyph_StrokeBorder 100 128] @ [Call_Glyph_To_Bitmap 101]"
  using assms
  by (simp add: DrawChar_is_space_def DrawChar_main_face_loaded DrawChar_glyph_index_A
      DrawChar_half_width_32 to_FT_UInt_def)

text \<open>
  Claim C6, as amended: when \<open>FT_Set_Pixel_Sizes\<close>, \<open>FT_Load_Glyph\<close>, \<open>FT_Get_Glyph\<close> or
  \<open>FT_Glyph_To_Bitmap\<close> fails, for the fill or for the stroke border, \<open>DrawChar\<close> returns
  \<open>kOtherError\<close> and makes no further call; the renderer is as the resolution of the face
  and the half-width substitution left it, the target bitmap as it was. The opening of a
  face is different. When \<open>FT_New_Face\<close> or \<open>FT_New_Memory_Face\<close> fails, for the face the
  provider named or for a face of the file tried after a negative face index,
  \<open>LoadFontFace\<close> fails with \<open>kFontNotFound\<close>. A failed opening from a file leaves the
  renderer as it was. Before an opening from memory, lines 703--716 have dropped the face
  of the slot and replaced its buffer by the data of the provider, and so the renderer
  stays. After a success of the provider, every error of \<open>LoadFontFace\<close> is
  \<open>kFontNotFound\<close>, but for \<open>kOtherError\<close> when the face index is negative and both names
  are empty. \<open>DrawChar\<close> returns the status \<open>FontProviderErrorToStatus\<close> gives for the
  error, with the renderer as \<open>LoadFontFace\<close> left it and the target bitmap as it was.
\<close>

theorem outline_library_failures:
  "(((NDEBUG E \<or> 0 < char_height) \<and> \<not> DrawChar_is_space ucs4 \<and>
     DrawChar_main_face E st calls = Returns (Inr main, st1, calls1) \<and>
     DrawChar_glyph_index E st1 main ucs4 fallback_policy calls1 =
       Returns (Inr (slot, face, glyph_index), st2, calls2) \<and>
     DrawChar_half_width E st2 slot face glyph_index char_width char_height =
       Returns (st3, glyph_index', char_width') \<and>
     w = to_FT_UInt char_width' \<and> h = to_FT_UInt char_height \<and>
     c1 = calls2 @ [Call_Set_Pixel_Sizes face w h] \<and>
     c2 = c1 @ [Call_Load_Glyph face glyph_index'] \<and>
     c3 = c2 @ [Call_Get_Glyph face] \<and>
     c4 = c3 @ [Call_Glyph_To_Bitmap outline] \<and>
     c5 = c4 @ [Call_Get_Glyph face] \<and>
     radius = \<lfloor>stroke_width * 64\<rfloor> \<and>
     c6 = c5 @ [Call_Glyph_StrokeBorder stroke_glyph radius] \<and>
     stroked = FT_Glyph_StrokeBorder E c5 stroke_glyph radius \<and>
     c7 = c6 @ [Call_Glyph_To_Bitmap stroked]) \<longrightarrow>
    (FT_Set_Pixel_Sizes E calls2 face w h \<longrightarrow>
       DrawChar E st target_bmp target_x target_y ucs4 style color stroke_color stroke_width
         char_width char_height underline_info fallback_policy calls =
       Returns (kOtherError, st3, target_bmp, c1)) \<and>
    (\<not> FT_Set_Pixel_Sizes E calls2 face w h \<and> FT_Load_Glyph E c1 face glyph_index' \<longrightarrow>
       DrawChar E st target_bmp target_x target_y ucs4 style color stroke_color stroke_width
         char_width char_height underline_info fallback_policy calls =
       Returns (kOtherError, st3, target_bmp, c2)) \<and>
    (\<not> FT_Set_Pixel_Sizes E calls2 face w h \<and> \<not> FT_Load_Glyph E c1 face glyph_index' \<and>
     FT_Get_Glyph E c2 face = None \<longrightarrow>
       DrawChar E st target_bmp target_x target_y ucs4 style color stroke_color stroke_width
         char_width char_height underline_info fallback_policy calls =
       Returns (kOtherError, st3, target_bmp, c3)) \<and>
    (\<not> FT_Set_Pixel_Sizes E calls2 face w h \<and> \<not> FT_Load_Glyph E c1 face glyph_index' \<and>
     FT_Get_Glyph E c2 face = Some outline \<and> FT_Glyph_To_Bitmap E c3 outline = None \<longrightarrow>
       DrawChar E st target_bmp target_x target_y ucs4 style color stroke_color stroke_width
         char_width char_height underline_info fallback_policy calls =
       Returns (kOtherError, st3, target_bmp, c4)) \<and>
    (\<not> FT_Set_Pixel_Sizes E calls2 face w h \<and> \<not> FT_Load_Glyph E c1 face glyph_index' \<and>
     FT_Get_Glyph E c2 face = Some outline \<and> FT_Glyph_To_Bitmap E c3 outline = Some glyph_image \<and>
     kCharStyleStroke \<in> style \<and> 0 < stroke_width \<and> FT_Get_Glyph E c4 face = None \<longrightarrow>
       DrawChar E st target_bmp target_x target_y ucs4 style color stroke_color stroke_width
         char_width char_height underline_info fallback_policy calls =
       Returns (kOtherError, st3, target_bmp, c5)) \<and>
    (\<not> FT_Set_Pixel_Sizes E calls2 face w h \<and> \<not> FT_Load_Glyph E c1 face glyph_index' \<and>
     FT_Get_Glyph E c2 face = Some outline \<and> FT_Glyph_To_Bitmap E c3 outline = Some glyph_image \<and>
     kCharStyleStroke \<in> style \<and> 0 < stroke_width \<and> FT_Get_Glyph E c4 face = Some stroke_glyph \<and>
     FT_Glyph_To_Bitmap E c6 stroked = None \<longrightarrow>
       DrawChar E st target_bmp target_x target_y ucs4 style color stroke_color stroke_width
         char_width char_height underline_info fallback_policy calls =
       Returns (kOtherError, st3, target_bmp, c7)))
   \<and>
   ((b = (case begin_index of Some b' \<Rightarrow> b' | None \<Rightarrow> 0) \<and> b \<le> k \<and> k < length (m_font_family st) \<and>
     (\<forall>i. b \<le> i \<and> i < k \<longrightarrow> isl (provider_answer E calls (m_font_family st) codepoint b i)) \<and>
     provider_answer E calls (m_font_family st) codepoint b k = Inr info \<and>
     q = calls @ provider_queries (m_font_family st) codepoint b (Suc k) \<and>
     q' = q @ [face_open_call info (info_face_index info)] \<and>
     st_open = (if info_font_data info = [] then st
                else if \<not> is_fallback
                then st\<lparr>m_main_face := None, m_main_face_data := info_font_data info\<rparr>
                else st\<lparr>m_fallback_face := None, m_fallback_face_data := info_font_data info\<rparr>)) \<longrightarrow>
    (info_font_data info = [] \<and>
     FT_New_Face E q (info_filename info) (info_face_index info) = None \<longrightarrow>
       LoadFontFace E st is_fallback codepoint begin_index calls =
         Returns (Inl FontProviderError_kFontNotFound, st,
                  q @ [Call_New_Face (info_filename info) (info_face_index info)])) \<and>
    (info_font_data info \<noteq> [] \<and>
     FT_New_Memory_Face E q (info_font_data info) (info_face_index info) = None \<longrightarrow>
       LoadFontFace E st is_fallback codepoint begin_index calls =
         Returns (Inl FontProviderError_kFontNotFound,
                  (if \<not> is_fallback
                   then st\<lparr>m_main_face := None, m_main_face_data := info_font_data info\<rparr>
                   else st\<lparr>m_fallback_face := None, m_fallback_face_data := info_font_data info\<rparr>),
                  q @ [Call_New_Memory_Face (info_font_data info) (info_face_index info)])) \<and>
    (info_face_index info < 0 \<and>
     \<not> (info_family_name info = [] \<and> info_postscript_name info = []) \<and>
     face_opened E info q (info_face_index info) = Some (faces 0) \<and>
     (\<forall>n. n < j \<longrightarrow>
        int n < sint (num_faces E (faces n)) \<and>
        face_opened E info (q' @ face_open_calls info n) (int n) = Some (faces (Suc n)) \<and>
        LoadFontFace_names_match E info (faces (Suc n)) = Returns False) \<and>
     int j < sint (num_faces E (faces j)) \<and>
     face_opened E info (q' @ face_open_calls info j) (int j) = None \<longrightarrow>
       LoadFontFace E st is_fallback codepoint begin_index calls =
         Returns (Inl FontProviderError_kFontNotFound, st_open, q' @ face_open_calls info (Suc j))) \<and>
    (info_face_index info < 0 \<and> info_family_name info = [] \<and> info_postscript_name info = [] \<and>
     face_opened E info q (info_face_index info) = Some face0 \<longrightarrow>
       LoadFontFace E st is_fallback codepoint begin_index calls =
         Returns (Inl FontProviderError_kOtherError, st_open, q')) \<and>
    (LoadFontFace E st is_fallback codepoint begin_index calls = Returns (Inl error, st', calls') \<longrightarrow>
       st' = st_open \<and>
       (error = FontProviderError_kFontNotFound \<or>
        (error = FontProviderError_kOtherError \<and> info_face_index info < 0 \<and>
         info_family_name info = [] \<and> info_postscript_name info = []))))
   \<and>
   ((NDEBUG E \<or> 0 < char_height) \<and> \<not> DrawChar_is_space ucs4 \<and> m_main_face st = None \<and>
    LoadFontFace E st False None None calls = Returns (Inl error, st', calls') \<longrightarrow>
      DrawChar E st target_bmp target_x target_y ucs4 style color stroke_color stroke_width
        char_width char_height underline_info fallback_policy calls =
      Returns (FontProviderErrorToStatus E error, st', target_bmp, calls'))
   \<and>
   ((NDEBUG E \<or> 0 < char_height) \<and> \<not> DrawChar_is_space ucs4 \<and>
    DrawChar_main_face E st calls = Returns (Inr main, st1, calls1) \<and>
    FT_Get_Char_Index E main ucs4 = 0 \<and> fallback_policy \<noteq> kFailOnCodePointNotFound \<and>
    (case m_fallback_face st1 of Some fallback \<Rightarrow> FT_Get_Char_Index E fallback ucs4 = 0
     | None \<Rightarrow> True) \<and>
    m_main_face_index st1 + 1 < length (m_font_family st1) \<and>
    LoadFontFace E st1 True (Some ucs4) (Some (m_main_face_index st1 + 1)) calls1 =
      Returns (Inl error, st', calls') \<longrightarrow>
      DrawChar E st target_bmp target_x target_y ucs4 style color stroke_color stroke_width
        char_width char_height underline_info fallback_policy calls =
      Returns (FontProviderErrorToStatus E error, st', target_bmp, calls'))"
  (is "(?H1 \<longrightarrow> ?C1) \<and> (?H2 \<longrightarrow> ?p1 \<and> ?p2 \<and> (?N3 \<longrightarrow> ?X3) \<and> ?p4 \<and> ?p5) \<and> ?P3 \<and> ?P4")
proof (intro conjI)
  show "?H1 \<longrightarrow> ?C1"
  proof (rule impI)
    assume ?H1
    then have h1: "NDEBUG E \<or> 0 < char_height" and h2: "\<not> DrawChar_is_space ucs4"
      and h3: "DrawChar_main_face E st calls = Returns (Inr main, st1, calls1)"
      and h4: "DrawChar_glyph_index E st1 main ucs4 fallback_policy calls1 =
         Returns (Inr (slot, face, glyph_index), st2, calls2)"
      and h5: "DrawChar_half_width E st2 slot face glyph_index char_width char_height =
         Returns (st3, glyph_index', char_width')"
      and n1: "w = to_FT_UInt char_width'" and n2: "h = to_FT_UInt char_height"
      and n3: "c1 = calls2 @ [Call_Set_Pixel_Sizes face w h]"
      and n4: "c2 = c1 @ [Call_Load_Glyph face glyph_index']"
      and n5: "c3 = c2 @ [Call_Get_Glyph face]"
      and n6: "c4 = c3 @ [Call_Glyph_To_Bitmap outline]"
      and n7: "c5 = c4 @ [Call_Get_Glyph face]"
      and n8: "radius = \<lfloor>stroke_width * 64\<rfloor>"
      and n9: "c6 = c5 @ [Call_Glyph_StrokeBorder stroke_glyph radius]"
      and n10: "stroked = FT_Glyph_StrokeBorder E c5 stroke_glyph radius"
      and n11: "c7 = c6 @ [Call_Glyph_To_Bitmap stroked]"
      by blast+
    note stages = DrawChar_stages [OF h1 h2 h3 h4 h5]
    note fails = DrawChar_outline_failures [OF n1 n2 n3 n4 n5 n6 n7 n8 n9 n10 n11]
    show ?C1
      unfolding stages
      by (intro conjI impI) (simp_all add: fails)
  qed
next
  show "?H2 \<longrightarrow> ?p1 \<and> ?p2 \<and> (?N3 \<longrightarrow> ?X3) \<and> ?p4 \<and> ?p5"
  proof (rule impI)
    assume ?H2
    then have g1: "b = (case begin_index of Some b' \<Rightarrow> b' | None \<Rightarrow> 0)" and g2: "b \<le> k"
      and g3: "k < length (m_font_family st)"
      and g4: "\<forall>i. b \<le> i \<and> i < k \<longrightarrow> isl (provider_answer E calls (m_font_family st) codepoint b i)"
      and g5: "provider_answer E calls (m_font_family st) codepoint b k = Inr info"
      and q: "q = calls @ provider_queries (m_font_family st) codepoint b (Suc k)"
      and q': "q' = q @ [face_open_call info (info_face_index info)]"
      and so: "st_open = (if info_font_data info = [] then st
                else if \<not> is_fallback
                then st\<lparr>m_main_face := None, m_main_face_data := info_font_data info\<rparr>
                else st\<lparr>m_fallback_face := None, m_fallback_face_data := info_font_data info\<rparr>)"
      by blast+
    note eq = LoadFontFace_at_success [OF g1 g2 g3 g4 g5 q so]
    have p1: ?p1
      using so by (simp add: eq face_opened_def face_open_call_def)
    have p2: ?p2
      using so by (simp add: eq face_opened_def face_open_call_def)
    have p3: "?N3 \<longrightarrow> ?X3"
    proof (rule impI)
      assume ?N3
      then have n1: "info_face_index info < 0"
        and n2: "\<not> (info_family_name info = [] \<and> info_postscript_name info = [])"
        and n3: "face_opened E info q (info_face_index info) = Some (faces 0)"
        and n4: "\<forall>n. n < j \<longrightarrow>
            int n < sint (num_faces E (faces n)) \<and>
            face_opened E info (q' @ face_open_calls info n) (int n) = Some (faces (Suc n)) \<and>
            LoadFontFace_names_match E info (faces (Suc n)) = Returns False"
        and n5: "int j < sint (num_faces E (faces j))"
        and n6: "face_opened E info (q' @ face_open_calls info j) (int j) = None"
        by blast+
      from n1 n2 n3 show ?X3
        by (simp add: eq q' [symmetric] find_face_open_fails [OF n4 n5 n6])
    qed
    have p4: ?p4
      by (simp add: eq q')
    have p5: ?p5
      using LoadFontFace_error_state [OF g1 g2 g3 g4 g5 so]
        LoadFontFace_error_after_success [OF g1 g2 g3 g4 g5]
      by blast
    from p1 p2 p3 p4 p5 show "?p1 \<and> ?p2 \<and> (?N3 \<longrightarrow> ?X3) \<and> ?p4 \<and> ?p5"
      by (intro conjI)
  qed
next
  show ?P3
    by (intro impI, elim conjE, rule DrawChar_main_face_error; assumption)
next
  show ?P4
    by (intro impI, elim conjE, rule DrawChar_fallback_face_error; assumption)
qed

theorem outline_library_failures_witness:
  "DrawChar (sample_env\<lparr>FT_Set_Pixel_Sizes := \<lambda>calls face w h. True\<rparr>) loaded_renderer [7]
     0 0 0x41 {kCharStyleUnderline} 1 2 2 32 32 (Some \<lparr>start_x = 10, width = 40\<rparr>) kAuto [] =
     Returns (kOtherError, loaded_renderer, [7], [Call_Set_Pixel_Sizes 2 32 32])
   \<and> DrawChar (sample_env\<lparr>FT_Load_Glyph := \<lambda>calls face glyph_index. True\<rparr>) loaded_renderer [7]
     0 0 0x41 {kCharStyleUnderline} 1 2 2 32 32 (Some \<lparr>start_x = 10, width = 40\<rparr>) kAuto [] =
     Returns (kOtherError, loaded_renderer, [7], [Call_Set_Pixel_Sizes 2 32 32, Call_Load_Glyph 2 7])
   \<and> DrawChar (sample_env\<lparr>FT_Get_Glyph := \<lambda>calls face. None\<rparr>) loaded_renderer [7]
     0 0 0x41 {kCharStyleUnderline} 1 2 2 32 32 (Some \<lparr>start_x = 10, width = 40\<rparr>) kAuto [] =
     Returns (kOtherError, loaded_renderer, [7],
       [Call_Set_Pixel_Sizes 2 32 32, Call_Load_Glyph 2 7, Call_Get_Glyph 2])
   \<and> DrawChar (sample_env\<lparr>FT_Glyph_To_Bitmap := \<lambda>calls glyph. None\<rparr>) loaded_renderer [7]
     0 0 0x41 {kCharStyleUnderline} 1 2 2 32 32 (Some \<lparr>start_x = 10, width = 40\<rparr>) kAuto [] =
     Returns (kOtherError, loaded_renderer, [7],
       [Call_Set_Pixel_Sizes 2 32 32, Call_Load_Glyph 2 7, Call_Get_Glyph 2, Call_Glyph_To_Bitmap 100])
   \<and> DrawChar
       (sample_env\<lparr>FT_Get_Glyph := \<lambda>calls face.
          if Call_Get_Glyph face \<in> set calls then None else Some 100\<rparr>)
       loaded_renderer [7]
     0 0 0x41 {kCharStyleStroke} 1 2 2 32 32 (Some \<lparr>start_x = 10, width = 40\<rparr>) kAuto [] =
     Returns (kOtherError, loaded_renderer, [7],
       [Call_Set_Pixel_Sizes 2 32 32, Call_Load_Glyph 2 7, Call_Get_Glyph 2, Call_Glyph_To_Bitmap 100,
        Call_Get_Glyph 2])
   \<and> DrawChar
       (sample_env\<lparr>FT_Glyph_To_Bitmap := \<lambda>calls glyph.
          if glyph = 101 then None else Some (glyph + 1000)\<rparr>)
       loaded_renderer [7]
     0 0 0x41 {kCharStyleStroke} 1 2 2 32 32 (Some \<lparr>start_x = 10, width = 40\<rparr>) kAuto [] =
     Returns (kOtherError, loaded_renderer, [7],
       [Call_Set_Pixel_Sizes 2 32 32, Call_Load_Glyph 2 7, Call_Get_Glyph 2, Call_Glyph_To_Bitmap 100,
        Call_Get_Glyph 2, Call_Glyph_StrokeBorder 100 128, Call_Glyph_To_Bitmap 101])
   \<and> LoadFontFace (sample_env\<lparr>FT_New_Face := \<lambda>calls file index. None\<rparr>) (fresh_renderer [''B''])
       False None None [] =
     Returns (Inl FontProviderError_kFontNotFound, fresh_renderer [''B''],
              [Call_GetFontFace ''B'' None, Call_New_Face ''b.ttf'' 0])
   \<and> LoadFontFace (sample_env\<lparr>GetFontFace := \<lambda>calls name codepoint. Inr memory_info\<rparr>)
       ((fresh_renderer [''A'', ''B''])\<lparr>m_main_face := Some 2, m_fallback_face := Some 3\<rparr>)
       True (Some 0x3042) (Some 1) [] =
     Returns (Inl FontProviderError_kFontNotFound,
              (fresh_renderer [''A'', ''B''])\<lparr>m_main_face := Some 2, m_fallback_face := None,
                                              m_fallback_face_data := [1, 2, 3]\<rparr>,
              [Call_GetFontFace ''B'' (Some 0x3042), Call_New_Memory_Face [1, 2, 3] 0])
   \<and> LoadFontFace
       (collection_env\<lparr>FT_New_Face := \<lambda>calls file index.
          if index < 1 then Some (nat (index + 10)) else None\<rparr>)
       (fresh_renderer [''A'', ''B'']) False None None [] =
     Returns (Inl FontProviderError_kFontNotFound, fresh_renderer [''A'', ''B''],
              [Call_GetFontFace ''A'' None, Call_GetFontFace ''B'' None,
               Call_New_Face ''b.ttc'' (- 1), Call_New_Face ''b.ttc'' 0, Call_New_Face ''b.ttc'' 1])
   \<and> LoadFontFace
       (sample_env\<lparr>GetFontFace := \<lambda>calls name codepoint.
          Inr (sample_info\<lparr>info_family_name := [], info_postscript_name := [],
                           info_face_index := - 1\<rparr>)\<rparr>)
       (fresh_renderer [''B'']) False None None [] =
     Returns (Inl FontProviderError_kOtherError, fresh_renderer [''B''],
              [Call_GetFontFace ''B'' None, Call_New_Face ''b.ttf'' (- 1)])
   \<and> DrawChar (sample_env\<lparr>FT_New_Face := \<lambda>calls file index. None\<rparr>) (fresh_renderer [''B'']) [7]
     0 0 0x41 {kCharStyleUnderline} 1 2 0 32 32 (Some \<lparr>start_x = 10, width = 40\<rparr>) kAuto [] =
     Returns (kFontNotFound, fresh_renderer [''B''], [7],
              [Call_GetFontFace ''B'' None, Call_New_Face ''b.ttf'' 0])
   \<and> DrawChar (sample_env\<lparr>GetFontFace := \<lambda>calls name codepoint. Inr memory_info\<rparr>)
       ((fresh_renderer [''A'', ''B''])\<lparr>m_main_face := Some 2, m_fallback_face := Some 3\<rparr>) [7]
     0 0 0x3042 {kCharStyleUnderline} 1 2 0 32 32 (Some \<lparr>start_x = 10, width = 40\<rparr>) kAuto [] =
     Returns (kFontNotFound,
              (fresh_renderer [''A'', ''B''])\<lparr>m_main_face := Some 2, m_fallback_face := None,
                                              m_fallback_face_data := [1, 2, 3]\<rparr>,
              [7], [Call_GetFontFace ''B'' (Some 0x3042), Call_New_Memory_Face [1, 2, 3] 0])"
proof -
  note T = outline_library_failures
  let ?S = "Call_Set_Pixel_Sizes 2 32 32 :: (nat, nat) call"
  let ?L = "Call_Load_Glyph 2 7 :: (nat, nat) call"
  let ?G = "Call_Get_Glyph 2 :: (nat, nat) call"
  let ?B = "Call_Glyph_To_Bitmap 100 :: (nat, nat) call"
  let ?Ea = "sample_env\<lparr>FT_Set_Pixel_Sizes := \<lambda>calls face w h. True\<rparr>"
  let ?Eb = "sample_env\<lparr>FT_Load_Glyph := \<lambda>calls face glyph_index. True\<rparr>"
  let ?Ec = "sample_env\<lparr>FT_Get_Glyph := \<lambda>calls face. None\<rparr>"
  let ?Ed = "sample_env\<lparr>FT_Glyph_To_Bitmap := \<lambda>calls glyph. None\<rparr>"
  let ?Ee = "sample_env\<lparr>FT_Get_Glyph := \<lambda>calls face.
          if Call_Get_Glyph face \<in> set calls then None else Some 100\<rparr>"
  let ?Ef = "sample_env\<lparr>FT_Glyph_To_Bitmap := \<lambda>calls glyph.
          if glyph = 101 then None else Some (glyph + 1000)\<rparr>"
  have sa: "FT_Get_Char_Index ?Ea = FT_Get_Char_Index sample_env"
      "FT_Glyph_StrokeBorder ?Ea = FT_Glyph_StrokeBorder sample_env"
    and sb: "FT_Get_Char_Index ?Eb = FT_Get_Char_Index sample_env"
      "FT_Glyph_StrokeBorder ?Eb = FT_Glyph_StrokeBorder sample_env"
    and sc: "FT_Get_Char_Index ?Ec = FT_Get_Char_Index sample_env"
      "FT_Glyph_StrokeBorder ?Ec = FT_Glyph_StrokeBorder sample_env"
    and sd: "FT_Get_Char_Index ?Ed = FT_Get_Char_Index sample_env"
      "FT_Glyph_StrokeBorder ?Ed = FT_Glyph_StrokeBorder sample_env"
    and se: "FT_Get_Char_Index ?Ee = FT_Get_Char_Index sample_env"
      "FT_Glyph_StrokeBorder ?Ee = FT_Glyph_StrokeBorder sample_env"
    and sf: "FT_Get_Char_Index ?Ef = FT_Get_Char_Index sample_env"
      "FT_Glyph_StrokeBorder ?Ef = FT_Glyph_StrokeBorder sample_env"
    by simp_all
  have fa: "FT_Set_Pixel_Sizes ?Ea [] 2 32 32"
    by simp
  have fb: "\<not> FT_Set_Pixel_Sizes ?Eb [] 2 32 32 \<and> FT_Load_Glyph ?Eb [?S] 2 7"
    by simp
  have fc: "\<not> FT_Set_Pixel_Sizes ?Ec [] 2 32 32 \<and> \<not> FT_Load_Glyph ?Ec [?S] 2 7 \<and>
            FT_Get_Glyph ?Ec [?S, ?L] 2 = None"
    by simp
  have fd: "\<not> FT_Set_Pixel_Sizes ?Ed [] 2 32 32 \<and> \<not> FT_Load_Glyph ?Ed [?S] 2 7 \<and>
            FT_Get_Glyph ?Ed [?S, ?L] 2 = Some 100 \<and> FT_Glyph_To_Bitmap ?Ed [?S, ?L, ?G] 100 = None"
    by simp
  have fe: "\<not> FT_Set_Pixel_Sizes ?Ee [] 2 32 32 \<and> \<not> FT_Load_Glyph ?Ee [?S] 2 7 \<and>
            FT_Get_Glyph ?Ee [?S, ?L] 2 = Some 100 \<and>
            FT_Glyph_To_Bitmap ?Ee [?S, ?L, ?G] 100 = Some 1100 \<and>
            kCharStyleStroke \<in> {kCharStyleStroke} \<and> 0 < (2 :: real) \<and>
            FT_Get_Glyph ?Ee [?S, ?L, ?G, ?B] 2 = None"
    by simp
  have ff: "\<not> FT_Set_Pixel_Sizes ?Ef [] 2 32 32 \<and> \<not> FT_Load_Glyph ?Ef [?S] 2 7 \<and>
            FT_Get_Glyph ?Ef [?S, ?L] 2 = Some 100 \<and>
            FT_Glyph_To_Bitmap ?Ef [?S, ?L, ?G] 100 = Some 1100 \<and>
            kCharStyleStroke \<in> {kCharStyleStroke} \<and> 0 < (2 :: real) \<and>
            FT_Get_Glyph ?Ef [?S, ?L, ?G, ?B] 2 = Some 100 \<and>
            FT_Glyph_To_Bitmap ?Ef [?S, ?L, ?G, ?B, ?G, Call_Glyph_StrokeBorder 100 128] 101 = None"
    by simp
  note P1 = T [THEN conjunct1, THEN mp]
  have 1: "DrawChar ?Ea loaded_renderer [7]
     0 0 0x41 {kCharStyleUnderline} 1 2 2 32 32 (Some \<lparr>start_x = 10, width = 40\<rparr>) kAuto [] =
     Returns (kOtherError, loaded_renderer, [7], [?S])"
    by (rule P1 [OF sample_draw_stages [OF sa], THEN conjunct1, THEN mp, OF fa])
  have 2: "DrawChar ?Eb loaded_renderer [7]
     0 0 0x41 {kCharStyleUnderline} 1 2 2 32 32 (Some \<lparr>start_x = 10, width = 40\<rparr>) kAuto [] =
     Returns (kOtherError, loaded_renderer, [7], [?S, ?L])"
    by (rule P1 [OF sample_draw_stages [OF sb], THEN conjunct2, THEN conjunct1, THEN mp, OF fb])
  have 3: "DrawChar ?Ec loaded_renderer [7]
     0 0 0x41 {kCharStyleUnderline} 1 2 2 32 32 (Some \<lparr>start_x = 10, width = 40\<rparr>) kAuto [] =
     Returns (kOtherError, loaded_renderer, [7], [?S, ?L, ?G])"
    by (rule P1 [OF sample_draw_stages [OF sc], THEN conjunct2, THEN conjunct2, THEN conjunct1,
          THEN mp, OF fc])
  have 4: "DrawChar ?Ed loaded_renderer [7]
     0 0 0x41 {kCharStyleUnderline} 1 2 2 32 32 (Some \<lparr>start_x = 10, width = 40\<rparr>) kAuto [] =
     Returns (kOtherError, loaded_renderer, [7], [?S, ?L, ?G, ?B])"
    by (rule P1 [OF sample_draw_stages [OF sd], THEN conjunct2, THEN conjunct2, THEN conjunct2,
          THEN conjunct1, THEN mp, OF fd])
  have 5: "DrawChar ?Ee loaded_renderer [7]
     0 0 0x41 {kCharStyleStroke} 1 2 2 32 32 (Some \<lparr>start_x = 10, width = 40\<rparr>) kAuto [] =
     Returns (kOtherError, loaded_renderer, [7], [?S, ?L, ?G, ?B, ?G])"
    by (rule P1 [OF sample_draw_stages [OF se], THEN conjunct2, THEN conjunct2, THEN conjunct2,
          THEN conjunct2, THEN conjunct1, THEN mp, OF fe])
  have 6: "DrawChar ?Ef loaded_renderer [7]
     0 0 0x41 {kCharStyleStroke} 1 2 2 32 32 (Some \<lparr>start_x = 10, width = 40\<rparr>) kAuto [] =
     Returns (kOtherError, loaded_renderer, [7],
       [?S, ?L, ?G, ?B, ?G, Call_Glyph_StrokeBorder 100 128, Call_Glyph_To_Bitmap 101])"
    by (rule P1 [OF sample_draw_stages [OF sf], THEN conjunct2, THEN conjunct2, THEN conjunct2,
          THEN conjunct2, THEN conjunct2, THEN mp, OF ff])
  note P2 = T [THEN conjunct2, THEN conjunct1, THEN mp]
  let ?E2 = "sample_env\<lparr>FT_New_Face := \<lambda>calls file index. None\<rparr>"
  let ?st = "fresh_renderer [''B'']"
  have g: "(0 :: nat) = (case None of Some b' \<Rightarrow> b' | None \<Rightarrow> 0) \<and> (0 :: nat) \<le> 0 \<and>
     0 < length (m_font_family ?st) \<and>
     (\<forall>i. 0 \<le> i \<and> i < 0 \<longrightarrow> isl (provider_answer ?E2 [] (m_font_family ?st) None 0 i)) \<and>
     provider_answer ?E2 [] (m_font_family ?st) None 0 0 = Inr sample_info \<and>
     [Call_GetFontFace ''B'' None] = [] @ provider_queries (m_font_family ?st) None 0 (Suc 0) \<and>
     [Call_GetFontFace ''B'' None, Call_New_Face ''b.ttf'' 0] =
       [Call_GetFontFace ''B'' None] @ [face_open_call sample_info (info_face_index sample_info)] \<and>
     ?st = (if info_font_data sample_info = [] then ?st
                else if \<not> False
                then ?st\<lparr>m_main_face := None, m_main_face_data := info_font_data sample_info\<rparr>
                else ?st\<lparr>m_fallback_face := None, m_fallback_face_data := info_font_data sample_info\<rparr>)"
    by (simp add: provider_answer_def provider_queries_def face_open_call_def)
  have o: "info_font_data sample_info = [] \<and>
     FT_New_Face ?E2 [Call_GetFontFace ''B'' None] (info_filename sample_info)
       (info_face_index sample_info) = None"
    by simp
  from P2 [OF g, THEN conjunct1, THEN mp, OF o]
  have 7: "LoadFontFace ?E2 ?st False None None [] =
     Returns (Inl FontProviderError_kFontNotFound, ?st,
              [Call_GetFontFace ''B'' None, Call_New_Face ''b.ttf'' 0])"
    by simp
  from P2 [OF g, THEN conjunct2, THEN conjunct2, THEN conjunct2, THEN conjunct2, THEN mp, OF 7]
  have e7: "fresh_renderer [''B''] = ?st \<and>
       (FontProviderError_kFontNotFound = FontProviderError_kFontNotFound \<or>
        (FontProviderError_kFontNotFound = FontProviderError_kOtherError \<and>
         info_face_index sample_info < 0 \<and>
         info_family_name sample_info = [] \<and> info_postscript_name sample_info = []))" .
  let ?E3 = "sample_env\<lparr>GetFontFace := \<lambda>calls name codepoint. Inr memory_info\<rparr>"
  let ?r = "(fresh_renderer [''A'', ''B''])\<lparr>m_main_face := Some 2, m_fallback_face := Some 3\<rparr>"
  let ?r' = "(fresh_renderer [''A'', ''B''])\<lparr>m_main_face := Some 2, m_fallback_face := None,
                                              m_fallback_face_data := [1, 2, 3]\<rparr>"
  have g3: "(1 :: nat) = (case Some 1 of Some b' \<Rightarrow> b' | None \<Rightarrow> 0) \<and> (1 :: nat) \<le> 1 \<and>
     1 < length (m_font_family ?r) \<and>
     (\<forall>i. 1 \<le> i \<and> i < 1 \<longrightarrow> isl (provider_answer ?E3 [] (m_font_family ?r) (Some 0x3042) 1 i)) \<and>
     provider_answer ?E3 [] (m_font_family ?r) (Some 0x3042) 1 1 = Inr memory_info \<and>
     [Call_GetFontFace ''B'' (Some 0x3042)] =
       [] @ provider_queries (m_font_family ?r) (Some 0x3042) 1 (Suc 1) \<and>
     [Call_GetFontFace ''B'' (Some 0x3042), Call_New_Memory_Face [1, 2, 3] 0] =
       [Call_GetFontFace ''B'' (Some 0x3042)] @
       [face_open_call memory_info (info_face_index memory_info)] \<and>
     ?r' = (if info_font_data memory_info = [] then ?r
                else if \<not> True
                then ?r\<lparr>m_main_face := None, m_main_face_data := info_font_data memory_info\<rparr>
                else ?r\<lparr>m_fallback_face := None, m_fallback_face_data := info_font_data memory_info\<rparr>)"
    by (simp add: provider_answer_def provider_queries_def face_open_call_def)
  have o3: "info_font_data memory_info \<noteq> [] \<and>
     FT_New_Memory_Face ?E3 [Call_GetFontFace ''B'' (Some 0x3042)] (info_font_data memory_info)
       (info_face_index memory_info) = None"
    by simp
  from P2 [OF g3, THEN conjunct2, THEN conjunct1, THEN mp, OF o3]
  have 8: "LoadFontFace ?E3 ?r True (Some 0x3042) (Some 1) [] =
     Returns (Inl FontProviderError_kFontNotFound, ?r',
              [Call_GetFontFace ''B'' (Some 0x3042), Call_New_Memory_Face [1, 2, 3] 0])"
    by simp
  let ?E4 = "collection_env\<lparr>FT_New_Face := \<lambda>calls file index.
          if index < 1 then Some (nat (index + 10)) else None\<rparr>"
  let ?st2 = "fresh_renderer [''A'', ''B'']"
  let ?q = "[Call_GetFontFace ''A'' None, Call_GetFontFace ''B'' None] :: (nat, nat) call list"
  let ?q' = "[Call_GetFontFace ''A'' None, Call_GetFontFace ''B'' None, Call_New_Face ''b.ttc'' (- 1)]
               :: (nat, nat) call list"
  have g4: "(0 :: nat) = (case None of Some b' \<Rightarrow> b' | None \<Rightarrow> 0) \<and> (0 :: nat) \<le> 1 \<and>
     1 < length (m_font_family ?st2) \<and>
     (\<forall>i. 0 \<le> i \<and> i < 1 \<longrightarrow> isl (provider_answer ?E4 [] (m_font_family ?st2) None 0 i)) \<and>
     provider_answer ?E4 [] (m_font_family ?st2) None 0 1 = Inr collection_info \<and>
     ?q = [] @ provider_queries (m_font_family ?st2) None 0 (Suc 1) \<and>
     ?q' = ?q @ [face_open_call collection_info (info_face_index collection_info)] \<and>
     ?st2 = (if info_font_data collection_info = [] then ?st2
                else if \<not> False
                then ?st2\<lparr>m_main_face := None, m_main_face_data := info_font_data collection_info\<rparr>
                else ?st2\<lparr>m_fallback_face := None,
                           m_fallback_face_data := info_font_data collection_info\<rparr>)"
    by (simp add: provider_answer_def provider_queries_def upt_rec face_open_call_def)
  have o4: "info_face_index collection_info < 0 \<and>
     \<not> (info_family_name collection_info = [] \<and> info_postscript_name collection_info = []) \<and>
     face_opened ?E4 collection_info ?q (info_face_index collection_info) = Some ((\<lambda>n. n + 9) 0) \<and>
     (\<forall>n. n < 1 \<longrightarrow>
        int n < sint (num_faces ?E4 ((\<lambda>n. n + 9) n)) \<and>
        face_opened ?E4 collection_info (?q' @ face_open_calls collection_info n) (int n) =
          Some ((\<lambda>n. n + 9) (Suc n)) \<and>
        LoadFontFace_names_match ?E4 collection_info ((\<lambda>n. n + 9) (Suc n)) = Returns False) \<and>
     int 1 < sint (num_faces ?E4 ((\<lambda>n. n + 9) 1)) \<and>
     face_opened ?E4 collection_info (?q' @ face_open_calls collection_info 1) (int 1) = None"
    by (simp add: face_opened_def LoadFontFace_names_match_def MatchFontFamilyName_def)
  from P2 [OF g4, THEN conjunct2, THEN conjunct2, THEN conjunct1, THEN mp, OF o4]
  have 9: "LoadFontFace ?E4 ?st2 False None None [] =
     Returns (Inl FontProviderError_kFontNotFound, ?st2,
              [Call_GetFontFace ''A'' None, Call_GetFontFace ''B'' None,
               Call_New_Face ''b.ttc'' (- 1), Call_New_Face ''b.ttc'' 0, Call_New_Face ''b.ttc'' 1])"
    by (simp add: face_open_calls_def face_open_call_def upt_rec)
  let ?nn = "sample_info\<lparr>info_family_name := [], info_postscript_name := [], info_face_index := - 1\<rparr>"
  let ?E5 = "sample_env\<lparr>GetFontFace := \<lambda>calls name codepoint. Inr ?nn\<rparr>"
  have g5: "(0 :: nat) = (case None of Some b' \<Rightarrow> b' | None \<Rightarrow> 0) \<and> (0 :: nat) \<le> 0 \<and>
     0 < length (m_font_family ?st) \<and>
     (\<forall>i. 0 \<le> i \<and> i < 0 \<longrightarrow> isl (provider_answer ?E5 [] (m_font_family ?st) None 0 i)) \<and>
     provider_answer ?E5 [] (m_font_family ?st) None 0 0 = Inr ?nn \<and>
     [Call_GetFontFace ''B'' None] = [] @ provider_queries (m_font_family ?st) None 0 (Suc 0) \<and>
     [Call_GetFontFace ''B'' None, Call_New_Face ''b.ttf'' (- 1)] =
       [Call_GetFontFace ''B'' None] @ [face_open_call ?nn (info_face_index ?nn)] \<and>
     ?st = (if info_font_data ?nn = [] then ?st
                else if \<not> False
                then ?st\<lparr>m_main_face := None, m_main_face_data := info_font_data ?nn\<rparr>
                else ?st\<lparr>m_fallback_face := None, m_fallback_face_data := info_font_data ?nn\<rparr>)"
    by (simp add: provider_answer_def provider_queries_def face_open_call_def)
  have o5: "info_face_index ?nn < 0 \<and> info_family_name ?nn = [] \<and> info_postscript_name ?nn = [] \<and>
     face_opened ?E5 ?nn [Call_GetFontFace ''B'' None] (info_face_index ?nn) = Some 2"
    by (simp add: face_opened_def)
  from P2 [OF g5, THEN conjunct2, THEN conjunct2, THEN conjunct2, THEN conjunct1, THEN mp, OF o5]
  have 10: "LoadFontFace ?E5 ?st False None None [] =
     Returns (Inl FontProviderError_kOtherError, ?st,
              [Call_GetFontFace ''B'' None, Call_New_Face ''b.ttf'' (- 1)])"
    by simp
  have m: "(NDEBUG ?E2 \<or> (0 :: int) < 32) \<and> \<not> DrawChar_is_space 0x41 \<and> m_main_face ?st = None \<and>
    LoadFontFace ?E2 ?st False None None [] =
      Returns (Inl FontProviderError_kFontNotFound, ?st,
               [Call_GetFontFace ''B'' None, Call_New_Face ''b.ttf'' 0])"
    using 7 by (simp add: DrawChar_is_space_def)
  from T [THEN conjunct2, THEN conjunct2, THEN conjunct1, THEN mp, OF m,
      of "[7]" 0 0 "{kCharStyleUnderline}" 1 2 0 32 "Some \<lparr>start_x = 10, width = 40\<rparr>" kAuto]
  have 11: "DrawChar ?E2 ?st [7]
     0 0 0x41 {kCharStyleUnderline} 1 2 0 32 32 (Some \<lparr>start_x = 10, width = 40\<rparr>) kAuto [] =
     Returns (kFontNotFound, ?st, [7], [Call_GetFontFace ''B'' None, Call_New_Face ''b.ttf'' 0])"
    by simp
  have f: "(NDEBUG ?E3 \<or> (0 :: int) < 32) \<and> \<not> DrawChar_is_space 0x3042 \<and>
    DrawChar_main_face ?E3 ?r [] = Returns (Inr 2, ?r, []) \<and>
    FT_Get_Char_Index ?E3 2 0x3042 = 0 \<and> kAuto \<noteq> kFailOnCodePointNotFound \<and>
    (case m_fallback_face ?r of Some fallback \<Rightarrow> FT_Get_Char_Index ?E3 fallback 0x3042 = 0
     | None \<Rightarrow> True) \<and>
    m_main_face_index ?r + 1 < length (m_font_family ?r) \<and>
    LoadFontFace ?E3 ?r True (Some 0x3042) (Some (m_main_face_index ?r + 1)) [] =
      Returns (Inl FontProviderError_kFontNotFound, ?r',
               [Call_GetFontFace ''B'' (Some 0x3042), Call_New_Memory_Face [1, 2, 3] 0])"
    using 8 by (simp add: DrawChar_is_space_def DrawChar_main_face_def)
  from T [THEN conjunct2, THEN conjunct2, THEN conjunct2, THEN mp, OF f,
      of "[7]" 0 0 "{kCharStyleUnderline}" 1 2 0 32 "Some \<lparr>start_x = 10, width = 40\<rparr>"]
  have 12: "DrawChar ?E3 ?r [7]
     0 0 0x3042 {kCharStyleUnderline} 1 2 0 32 32 (Some \<lparr>start_x = 10, width = 40\<rparr>) kAuto [] =
     Returns (kFontNotFound, ?r', [7],
              [Call_GetFontFace ''B'' (Some 0x3042), Call_New_Memory_Face [1, 2, 3] 0])"
    by simp
  show ?thesis
    by (intro conjI) (fact 1 2 3 4 5 6 7 8 9 10 11 12)+
qed

text \<open>
  The claim as it was stated counts the opening of a face among the failures that are
  surfaced as \<open>kOtherError\<close> and leave the slots as they were. Lines 721, 729, 748 and 756
  return \<open>kFontNotFound\<close>; with the one-to-one mapping of the provider's errors to
  statuses, \<open>DrawChar\<close> returns \<open>kFontNotFound\<close>. And when the font comes in memory, lines
  710--711 have reset the fallback face and moved the data into the slot before
  \<open>FT_New_Memory_Face\<close> fails: the fallback face that was open is gone.
\<close>

theorem face_opening_failure_counterexample:
  "FT_New_Face (sample_env\<lparr>FT_New_Face := \<lambda>calls file index. None\<rparr>)
     [Call_GetFontFace ''B'' None] ''b.ttf'' 0 = None \<and>
   DrawChar (sample_env\<lparr>FT_New_Face := \<lambda>calls file index. None\<rparr>) (fresh_renderer [''B'']) [7]
     0 0 0x41 {kCharStyleUnderline} 1 2 0 32 32 (Some \<lparr>start_x = 10, width = 40\<rparr>) kAuto [] =
   Returns (kFontNotFound, fresh_renderer [''B''], [7],
            [Call_GetFontFace ''B'' None, Call_New_Face ''b.ttf'' 0])
   \<and> kFontNotFound \<noteq> kOtherError
   \<and> FT_New_Memory_Face (sample_env\<lparr>GetFontFace := \<lambda>calls name codepoint. Inr memory_info\<rparr>)
       [Call_GetFontFace ''B'' (Some 0x3042)] [1, 2, 3] 0 = None
   \<and> DrawChar (sample_env\<lparr>GetFontFace := \<lambda>calls name codepoint. Inr memory_info\<rparr>)
       ((fresh_renderer [''A'', ''B''])\<lparr>m_main_face := Some 2, m_fallback_face := Some 3\<rparr>) [7]
     0 0 0x3042 {kCharStyleUnderline} 1 2 0 32 32 (Some \<lparr>start_x = 10, width = 40\<rparr>) kAuto [] =
     Returns (kFontNotFound,
              (fresh_renderer [''A'', ''B''])\<lparr>m_main_face := Some 2, m_fallback_face := None,
                                              m_fallback_face_data := [1, 2, 3]\<rparr>,
              [7], [Call_GetFontFace ''B'' (Some 0x3042), Call_New_Memory_Face [1, 2, 3] 0])
   \<and> m_fallback_face
       ((fresh_renderer [''A'', ''B''])\<lparr>m_main_face := Some 2, m_fallback_face := Some 3\<rparr>) = Some 3
   \<and> m_fallback_face
       ((fresh_renderer [''A'', ''B''])\<lparr>m_main_face := Some 2, m_fallback_face := None,
                                        m_fallback_face_data := [1, 2, 3]\<rparr>) = None"
  by (simp add: DrawChar_def DrawChar_is_space_def DrawChar_main_face_def DrawChar_glyph_index_def
      LoadFontFace_def LoadFontFace_open_def LoadFontFace_provider_loop.simps)

end
